theory Spec2Isabelle
  imports Complex_Main
begin

section \<open>Python values\<close>

text \<open>
  The JSON values that \<open>response.json()\<close> can produce. A Python \<open>str\<close> is modelled as a
  \<open>string\<close> holding its UTF-8 bytes; a \<open>dict\<close> is an association list read with
  \<open>map_of\<close>; Python's \<open>None\<close> is \<open>JNull\<close>.
\<close>

datatype json =
    JNull
  | JBool bool
  | JInt int
  | JFloat rat
  | JStr string
  | JList "json list"
  | JDict "(string \<times> json) list"

text \<open>
  Exceptions. The first group are instances of Python's \<open>Exception\<close>; \<open>BaseOnly\<close> stands
  for the exceptions that derive from \<open>BaseException\<close> alone (\<open>KeyboardInterrupt\<close>,
  \<open>SystemExit\<close>, \<open>asyncio.CancelledError\<close>), which a handler \<open>except Exception\<close> does not
  intercept. Each constructor carries what \<open>str(e)\<close> prints (\<open>BaseOnly\<close> the name of the
  class, which the code never prints); \<open>McpError\<close> carries the code
  and the message of its \<open>ErrorData\<close>, \<open>HTTPStatusError\<close> the status code and the text of
  its response.
\<close>

datatype py_exc =
    McpError int string
  | HTTPStatusError int string
  | RequestError string
  | JSONDecodeError string
  | KeyError string
  | TypeError string
  | AttributeError string
  | IndexError string
  | ValueError string
  | OtherException string
  | BaseOnly string

fun is_Exception :: "py_exc \<Rightarrow> bool" where
  "is_Exception (BaseOnly m) = False"
| "is_Exception e = True"

fun str_exc :: "py_exc \<Rightarrow> string" where
  "str_exc (McpError c m) = m"
| "str_exc (HTTPStatusError s t) = t"
| "str_exc (RequestError m) = m"
| "str_exc (JSONDecodeError m) = m"
| "str_exc (KeyError m) = m"
| "str_exc (TypeError m) = m"
| "str_exc (AttributeError m) = m"
| "str_exc (IndexError m) = m"
| "str_exc (ValueError m) = m"
| "str_exc (OtherException m) = m"
| "str_exc (BaseOnly m) = m"

text \<open>Sequencing of computations that may raise: the first exception wins.\<close>

definition and_then :: "'e + 'a \<Rightarrow> ('a \<Rightarrow> 'e + 'b) \<Rightarrow> 'e + 'b" where
  "and_then m f = (case m of Inl e \<Rightarrow> Inl e | Inr x \<Rightarrow> f x)"

subsection \<open>Integers printed in decimal\<close>

fun str_nat :: "nat \<Rightarrow> string" where
  "str_nat n =
     (if n < 10 then [''0123456789'' ! n]
      else str_nat (n div 10) @ [''0123456789'' ! (n mod 10)])"

definition str_int :: "int \<Rightarrow> string" where
  "str_int i = (if i < 0 then CHR ''-'' # str_nat (nat (- i)) else str_nat (nat i))"

subsection \<open>The operations of Python the code applies to a JSON value\<close>

fun type_name :: "json \<Rightarrow> string" where
  "type_name JNull = ''NoneType''"
| "type_name (JBool b) = ''bool''"
| "type_name (JInt i) = ''int''"
| "type_name (JFloat r) = ''float''"
| "type_name (JStr s) = ''str''"
| "type_name (JList xs) = ''list''"
| "type_name (JDict kvs) = ''dict''"

text \<open>Truth value of an object, as \<open>if x\<close> and \<open>not x\<close> read it.\<close>

fun truthy :: "json \<Rightarrow> bool" where
  "truthy JNull = False"
| "truthy (JBool b) = b"
| "truthy (JInt i) = (i \<noteq> 0)"
| "truthy (JFloat r) = (r \<noteq> 0)"
| "truthy (JStr s) = (s \<noteq> [])"
| "truthy (JList xs) = (xs \<noteq> [])"
| "truthy (JDict kvs) = (kvs \<noteq> [])"

fun starts_with :: "string \<Rightarrow> string \<Rightarrow> bool" where
  "starts_with [] s = True"
| "starts_with (p # ps) [] = False"
| "starts_with (p # ps) (c # cs) = (p = c \<and> starts_with ps cs)"

fun has_substring :: "string \<Rightarrow> string \<Rightarrow> bool" where
  "has_substring p [] = (p = [])"
| "has_substring p (c # cs) = (starts_with p (c # cs) \<or> has_substring p cs)"

text \<open>
  \<open>k in x\<close> for a string \<open>k\<close>: a key of a dict, an element of a list, a substring of a
  string; any other object is not a container and the test raises \<open>TypeError\<close>.
\<close>

fun py_in :: "string \<Rightarrow> json \<Rightarrow> py_exc + bool" where
  "py_in k (JDict kvs) = Inr (k \<in> set (map fst kvs))"
| "py_in k (JList xs) = Inr (JStr k \<in> set xs)"
| "py_in k (JStr s) = Inr (has_substring k s)"
| "py_in k v = Inl (TypeError (''argument of type '' @ [CHR 0x27] @ type_name v @ [CHR 0x27]
                                 @ '' is not iterable''))"

text \<open>\<open>x[k]\<close> for a string \<open>k\<close>: \<open>KeyError\<close> (printed as the quoted key) on a dict without
  the key, \<open>TypeError\<close> on everything that is not a dict.\<close>

fun py_getitem :: "json \<Rightarrow> string \<Rightarrow> py_exc + json" where
  "py_getitem (JDict kvs) k =
     (case map_of kvs k of
        None \<Rightarrow> Inl (KeyError ([CHR 0x27] @ k @ [CHR 0x27]))
      | Some v \<Rightarrow> Inr v)"
| "py_getitem (JList xs) k = Inl (TypeError ''list indices must be integers or slices, not str'')"
| "py_getitem (JStr s) k = Inl (TypeError ''string indices must be integers'')"
| "py_getitem v k = Inl (TypeError ([CHR 0x27] @ type_name v @ [CHR 0x27]
                                      @ '' object is not subscriptable''))"

text \<open>\<open>x.get(k, d)\<close>: only a dict has the method.\<close>

fun py_get :: "json \<Rightarrow> string \<Rightarrow> json \<Rightarrow> py_exc + json" where
  "py_get (JDict kvs) k d = Inr (case map_of kvs k of None \<Rightarrow> d | Some v \<Rightarrow> v)"
| "py_get v k d = Inl (AttributeError ([CHR 0x27] @ type_name v @ [CHR 0x27]
                                         @ '' object has no attribute '' @ [CHR 0x27] @ ''get''
                                         @ [CHR 0x27]))"

section \<open>The HTTP fetcher: \<open>make_jolpica_request\<close>\<close>

text \<open>The error code \<open>INTERNAL_ERROR\<close> of \<open>mcp.types\<close> (the JSON-RPC internal error).\<close>

definition INTERNAL_ERROR :: int where
  "INTERNAL_ERROR = - 32603"

text \<open>\<open>endpoint.lstrip('/')\<close> and the URL of line 17.\<close>

definition lstrip_slash :: "string \<Rightarrow> string" where
  "lstrip_slash s = dropWhile (\<lambda>c. c = CHR ''/'') s"

definition request_url :: "string \<Rightarrow> string \<Rightarrow> string" where
  "request_url base endpoint = base @ ''/'' @ lstrip_slash endpoint @ ''.json''"

text \<open>
  What the HTTP client does with a request: \<open>client.get\<close> raises, or it returns a response
  with a status code, a body text and the outcome of \<open>response.json()\<close> on that body (the
  parsed value, or the exception the parser raises).
\<close>

datatype http_result =
    Raised py_exc
  | Response int string "py_exc + json"

text \<open>\<open>response.raise_for_status()\<close> of httpx: every status outside 200..299 raises
  \<open>HTTPStatusError\<close>.\<close>

definition raise_for_status :: "int \<Rightarrow> string \<Rightarrow> py_exc + unit" where
  "raise_for_status status body =
     (if 200 \<le> status \<and> status < 300 then Inr () else Inl (HTTPStatusError status body))"

text \<open>
  Lines 29 to 48 only log, but they evaluate \<open>table_key in mr_data\<close> and
  \<open>mr_data[table_key]\<close> for the three table keys in turn, and both can raise.
\<close>

definition log_table :: "json \<Rightarrow> string \<Rightarrow> py_exc + unit" where
  "log_table mr_data table_key =
     and_then (py_in table_key mr_data) (\<lambda>present.
       if present then and_then (py_getitem mr_data table_key) (\<lambda>table_data. Inr ())
       else Inr ())"

definition log_structure :: "json \<Rightarrow> py_exc + unit" where
  "log_structure json_data =
     (case json_data of
        JDict kvs \<Rightarrow>
          (case map_of kvs ''MRData'' of
             None \<Rightarrow> Inr ()
           | Some mr_data \<Rightarrow>
               and_then (log_table mr_data ''DriverTable'') (\<lambda>u.
               and_then (log_table mr_data ''RaceTable'') (\<lambda>u.
               log_table mr_data ''StandingsTable'')))
      | _ \<Rightarrow> Inr ())"

text \<open>The body of the \<open>try\<close> block, lines 17 to 50.\<close>

definition request_body :: "http_result \<Rightarrow> py_exc + json" where
  "request_body r =
     (case r of
        Raised e \<Rightarrow> Inl e
      | Response status body parsed \<Rightarrow>
          and_then (raise_for_status status body) (\<lambda>u.
          and_then parsed (\<lambda>json_data.
          and_then (log_structure json_data) (\<lambda>u. Inr json_data))))"

text \<open>The four handlers, lines 52 to 75, in the order of the source.\<close>

fun request_handlers :: "py_exc \<Rightarrow> py_exc" where
  "request_handlers (HTTPStatusError status body) =
     McpError INTERNAL_ERROR (''Jolpica F1 API HTTP error '' @ str_int status @ '': '' @ body)"
| "request_handlers (RequestError m) =
     McpError INTERNAL_ERROR (''Jolpica F1 API network error: '' @ m)"
| "request_handlers (JSONDecodeError m) =
     McpError INTERNAL_ERROR (''Invalid JSON response from Jolpica F1 API: '' @ m)"
| "request_handlers e =
     (if is_Exception e
      then McpError INTERNAL_ERROR (''Jolpica F1 API unexpected error: '' @ str_exc e)
      else e)"

definition request_outcome :: "http_result \<Rightarrow> py_exc + json" where
  "request_outcome r =
     (case request_body r of
        Inl e \<Rightarrow> Inl (request_handlers e)
      | Inr json_data \<Rightarrow> Inr json_data)"

text \<open>
  The fetcher itself. The network is a state \<open>'w\<close> and the client a function from the URL
  and that state to a result and the next state.
\<close>

type_synonym 'w http_client = "string \<Rightarrow> 'w \<Rightarrow> http_result \<times> 'w"

definition make_jolpica_request ::
  "string \<Rightarrow> 'w http_client \<Rightarrow> string \<Rightarrow> 'w \<Rightarrow> (py_exc + json) \<times> 'w" where
  "make_jolpica_request base client endpoint w =
     (case client (request_url base endpoint) w of
        (r, w') \<Rightarrow> (request_outcome r, w'))"

section \<open>The career standings aggregator: \<open>get_driver_career_standings\<close>\<close>

text \<open>
  The aggregator sees the fetcher as a function from the endpoint and the state of the
  world to what the call does (it returns a value or raises) and the next state.
\<close>

type_synonym 'w fetcher = "string \<Rightarrow> 'w \<Rightarrow> (py_exc + json) \<times> 'w"

text \<open>\<open>range(current_year, current_year - 10, -1)\<close> and the endpoint of line 122.\<close>

definition probe_years :: "int \<Rightarrow> int list" where
  "probe_years current_year = map (\<lambda>i. current_year - int i) [0..<10]"

definition standings_endpoint :: "int \<Rightarrow> string \<Rightarrow> string" where
  "standings_endpoint year driver_id =
     str_int year @ ''/drivers/'' @ driver_id @ ''/driverStandings''"

text \<open>
  \<open>recent_standings.extend(x)\<close> iterates over \<open>x\<close>: the elements of a list, the keys of a
  dict, the characters of a string (one per UTF-8 lead byte with its continuation bytes);
  anything else is not iterable, and the list is left as it was.
\<close>

definition is_continuation :: "char \<Rightarrow> bool" where
  "is_continuation c = (128 \<le> (of_char c :: nat) \<and> (of_char c :: nat) < 192)"

function code_points :: "string \<Rightarrow> string list" where
  "code_points [] = []"
| "code_points (c # cs) =
     (c # takeWhile is_continuation cs) # code_points (dropWhile is_continuation cs)"
  by pat_completeness auto
termination
  by (relation "measure length") (auto simp: length_dropWhile_le less_Suc_eq_le)

fun py_iter :: "json \<Rightarrow> py_exc + json list" where
  "py_iter (JList xs) = Inr xs"
| "py_iter (JDict kvs) = Inr (map (\<lambda>kv. JStr (fst kv)) kvs)"
| "py_iter (JStr s) = Inr (map JStr (code_points s))"
| "py_iter v = Inl (TypeError ([CHR 0x27] @ type_name v @ [CHR 0x27]
                                @ '' object is not iterable''))"

text \<open>
  Lines 123 to 127: what one year's answer adds to \<open>recent_standings\<close>, or the exception
  raised on the way.
\<close>

definition year_standings :: "json \<Rightarrow> py_exc + json list" where
  "year_standings year_data =
     (if \<not> truthy year_data then Inr []
      else and_then (py_in ''MRData'' year_data) (\<lambda>present.
        if \<not> present then Inr []
        else and_then (py_getitem year_data ''MRData'') (\<lambda>mr_data.
             and_then (py_get mr_data ''StandingsTable'' (JDict [])) (\<lambda>standings_table.
             and_then (py_get standings_table ''StandingsLists'' (JList [])) (\<lambda>standings_lists.
             if truthy standings_lists then py_iter standings_lists else Inr [])))))"

text \<open>
  The loop of lines 120 to 131. The inner handler is \<open>except Exception\<close>: it takes every
  instance of \<open>Exception\<close>, from the fetcher or from the lines after it, and goes on with
  the next year; any other exception leaves the loop.
\<close>

fun career_loop ::
  "'w fetcher \<Rightarrow> string \<Rightarrow> int list \<Rightarrow> json list \<Rightarrow> 'w \<Rightarrow> (py_exc + json list) \<times> 'w" where
  "career_loop fetch driver_id [] recent_standings w = (Inr recent_standings, w)"
| "career_loop fetch driver_id (year # years) recent_standings w =
     (case fetch (standings_endpoint year driver_id) w of
        (r, w') \<Rightarrow>
          (case and_then r year_standings of
             Inr found \<Rightarrow> career_loop fetch driver_id years (recent_standings @ found) w'
           | Inl e \<Rightarrow>
               if is_Exception e then career_loop fetch driver_id years recent_standings w'
               else (Inl e, w')))"

text \<open>The envelope of lines 136 to 142.\<close>

definition standings_envelope :: "json list \<Rightarrow> json" where
  "standings_envelope recent_standings =
     JDict [(''MRData'',
       JDict [(''StandingsTable'',
         JDict [(''StandingsLists'', JList recent_standings)])])]"

text \<open>
  The whole function; \<open>current_year\<close> is the year \<open>datetime.now()\<close> gives. The outer
  handler is \<open>except Exception\<close> again and returns \<open>None\<close>.
\<close>

definition get_driver_career_standings ::
  "int \<Rightarrow> 'w fetcher \<Rightarrow> string \<Rightarrow> 'w \<Rightarrow> (py_exc + json) \<times> 'w" where
  "get_driver_career_standings current_year fetch driver_id w =
     (case career_loop fetch driver_id (probe_years current_year) [] w of
        (Inr recent_standings, w') \<Rightarrow>
          (Inr (if recent_standings \<noteq> [] then standings_envelope recent_standings else JNull), w')
      | (Inl e, w') \<Rightarrow> (if is_Exception e then Inr JNull else Inl e, w'))"

text \<open>
  A fetcher that fails only with instances of \<open>Exception\<close>, as \<open>make_jolpica_request\<close>
  does whenever the HTTP client does.
\<close>

definition ordinary_fetcher :: "'w fetcher \<Rightarrow> bool" where
  "ordinary_fetcher fetch = (\<forall>endpoint w e. fst (fetch endpoint w) = Inl e \<longrightarrow> is_Exception e)"

text \<open>A fetcher that also writes every endpoint it is called with to a log.\<close>

definition recording :: "'w fetcher \<Rightarrow> (string list \<times> 'w) fetcher" where
  "recording fetch endpoint s =
     (case s of (calls, w) \<Rightarrow>
        (case fetch endpoint w of (r, w') \<Rightarrow> (r, (calls @ [endpoint], w'))))"

section \<open>More of Python for the formatters\<close>

text \<open>
  \<open>str(v)\<close>, as an f-string applies it to a field. For a float, a list or a dict Python
  prints the \<open>repr\<close>, which is not modelled: it is the parameter \<open>R\<close> of every formatter.
\<close>

fun py_str :: "(json \<Rightarrow> string) \<Rightarrow> json \<Rightarrow> string" where
  "py_str R (JStr s) = s"
| "py_str R (JInt i) = str_int i"
| "py_str R JNull = ''None''"
| "py_str R (JBool b) = (if b then ''True'' else ''False'')"
| "py_str R v = R v"

text \<open>\<open>x[0]\<close>.\<close>

fun py_index0 :: "json \<Rightarrow> py_exc + json" where
  "py_index0 (JList xs) =
     (case xs of [] \<Rightarrow> Inl (IndexError ''list index out of range'') | x # rest \<Rightarrow> Inr x)"
| "py_index0 (JStr s) =
     (case code_points s of
        [] \<Rightarrow> Inl (IndexError ''string index out of range'')
      | c # rest \<Rightarrow> Inr (JStr c))"
| "py_index0 (JDict kvs) = Inl (KeyError ''0'')"
| "py_index0 v = Inl (TypeError ([CHR 0x27] @ type_name v @ [CHR 0x27]
                                   @ '' object is not subscriptable''))"

text \<open>\<open>x[:10]\<close>. A dict takes the slice for a key and raises (\<open>TypeError\<close> up to Python 3.11,
  \<open>KeyError\<close> since).\<close>

fun py_slice10 :: "json \<Rightarrow> py_exc + json" where
  "py_slice10 (JList xs) = Inr (JList (take 10 xs))"
| "py_slice10 (JStr s) = Inr (JStr (concat (take 10 (code_points s))))"
| "py_slice10 (JDict kvs) = Inl (TypeError (''unhashable type: '' @ [CHR 0x27] @ ''slice''
                                             @ [CHR 0x27]))"
| "py_slice10 v = Inl (TypeError ([CHR 0x27] @ type_name v @ [CHR 0x27]
                                   @ '' object is not subscriptable''))"

text \<open>\<open>{x[k]}\<close> inside an f-string.\<close>

definition fmt_item :: "(json \<Rightarrow> string) \<Rightarrow> json \<Rightarrow> string \<Rightarrow> py_exc + string" where
  "fmt_item R x k = and_then (py_getitem x k) (\<lambda>v. Inr (py_str R v))"

text \<open>A loop that builds text: the pieces in order, or the first exception.\<close>

fun for_each :: "('a \<Rightarrow> py_exc + string) \<Rightarrow> 'a list \<Rightarrow> py_exc + string" where
  "for_each f [] = Inr []"
| "for_each f (x # xs) = and_then (f x) (\<lambda>s. and_then (for_each f xs) (\<lambda>rest. Inr (s @ rest)))"

text \<open>The characters outside ASCII that the templates print, as UTF-8.\<close>

definition nl :: string where
  "nl = [CHR 0x0A]"

definition cross_mark :: string where
  "cross_mark = [CHR 0xE2, CHR 0x9D, CHR 0x8C]"

definition chequered_flag :: string where
  "chequered_flag = [CHR 0xF0, CHR 0x9F, CHR 0x8F, CHR 0x81]"

definition stopwatch :: string where
  "stopwatch = [CHR 0xE2, CHR 0x8F, CHR 0xB1, CHR 0xEF, CHR 0xB8, CHR 0x8F]"

definition trophy :: string where
  "trophy = [CHR 0xF0, CHR 0x9F, CHR 0x8F, CHR 0x86]"

definition high_voltage :: string where
  "high_voltage = [CHR 0xE2, CHR 0x9A, CHR 0xA1]"

text \<open>
  The handler every tool ends with: \<open>except Exception as e: return f"Failed to get X: {str(e)}"\<close>.
\<close>

definition failed_to_get :: "string \<Rightarrow> py_exc + string \<Rightarrow> py_exc + string" where
  "failed_to_get what r =
     (case r of
        Inr text \<Rightarrow> Inr text
      | Inl e \<Rightarrow> if is_Exception e then Inr (''Failed to get '' @ what @ '': '' @ str_exc e)
                 else Inl e)"

section \<open>The race analysis formatter: \<open>get_race_analysis\<close>\<close>

text \<open>Lines 43 to 47.\<close>

definition analysis_header ::
  "(json \<Rightarrow> string) \<Rightarrow> int \<Rightarrow> json \<Rightarrow> json \<Rightarrow> json \<Rightarrow> py_exc + string" where
  "analysis_header R year race circuit location =
     and_then (fmt_item R race ''raceName'') (\<lambda>race_name.
     and_then (fmt_item R circuit ''circuitName'') (\<lambda>circuit_name.
     and_then (fmt_item R location ''locality'') (\<lambda>locality.
     and_then (fmt_item R location ''country'') (\<lambda>country.
     and_then (fmt_item R race ''date'') (\<lambda>date.
     and_then (fmt_item R race ''round'') (\<lambda>round.
     Inr (chequered_flag @ '' **'' @ race_name @ '' - '' @ str_int year @ '' Race Analysis**''
            @ nl @ nl
          @ ''**Circuit:** '' @ circuit_name @ nl
          @ ''**Location:** '' @ locality @ '', '' @ country @ nl
          @ ''**Date:** '' @ date @ nl
          @ chequered_flag @ '' **Round:** '' @ round @ nl @ nl)))))))"

text \<open>Lines 55 to 58, one line of the qualifying table; \<open>i\<close> counts from 1.\<close>

definition quali_line :: "(json \<Rightarrow> string) \<Rightarrow> nat \<times> json \<Rightarrow> py_exc + string" where
  "quali_line R ir =
     (case ir of (i, result) \<Rightarrow>
        and_then (py_getitem result ''Driver'') (\<lambda>driver.
        and_then (py_getitem result ''Constructor'') (\<lambda>constructor.
        and_then (py_get result ''Q1'' (JStr ''N/A'')) (\<lambda>q1.
        and_then (py_get result ''Q2'' q1) (\<lambda>q2.
        and_then (py_get result ''Q3'' q2) (\<lambda>q3_time.
        and_then (fmt_item R driver ''givenName'') (\<lambda>given.
        and_then (fmt_item R driver ''familyName'') (\<lambda>family.
        and_then (fmt_item R constructor ''name'') (\<lambda>name.
        Inr (''P'' @ str_nat i @ '': '' @ given @ '' '' @ family @ '' ('' @ name @ '') - ''
               @ py_str R q3_time @ nl))))))))))"

text \<open>Lines 50 to 59. The condition of line 50 is evaluated left to right and stops at the
  first operand that decides it.\<close>

definition quali_races :: "json \<Rightarrow> py_exc + json" where
  "quali_races quali_data =
     and_then (py_getitem quali_data ''MRData'') (\<lambda>mr_data.
     and_then (py_getitem mr_data ''RaceTable'') (\<lambda>race_table.
     py_getitem race_table ''Races''))"

definition quali_section :: "(json \<Rightarrow> string) \<Rightarrow> json \<Rightarrow> py_exc + string" where
  "quali_section R quali_data =
     (if \<not> truthy quali_data then Inr []
      else and_then (py_in ''MRData'' quali_data) (\<lambda>present.
        if \<not> present then Inr []
        else and_then (quali_races quali_data) (\<lambda>races.
          if \<not> truthy races then Inr []
          else and_then (quali_races quali_data) (\<lambda>races.
               and_then (py_index0 races) (\<lambda>quali_race.
               and_then (py_in ''QualifyingResults'' quali_race) (\<lambda>has_results.
                 if \<not> has_results then Inr []
                 else and_then (py_getitem quali_race ''QualifyingResults'') (\<lambda>results.
                      and_then (py_slice10 results) (\<lambda>top.
                      and_then (py_iter top) (\<lambda>items.
                      and_then (for_each (quali_line R) (zip [1..<Suc (length items)] items))
                        (\<lambda>lines.
                      Inr (''**'' @ stopwatch @ '' QUALIFYING RESULTS:**'' @ nl
                             @ lines @ nl)))))))))))"

text \<open>Lines 65 to 77, one line of the race table.\<close>

definition time_status :: "(json \<Rightarrow> string) \<Rightarrow> json \<Rightarrow> py_exc + string" where
  "time_status R result =
     and_then (py_in ''Time'' result) (\<lambda>has_time.
       if has_time
       then and_then (py_getitem result ''Time'') (\<lambda>t.
            and_then (fmt_item R t ''time'') (\<lambda>s. Inr (''('' @ s @ '')'')))
       else and_then (py_in ''status'' result) (\<lambda>has_status.
         if has_status
         then and_then (fmt_item R result ''status'') (\<lambda>s. Inr (''('' @ s @ '')''))
         else Inr []))"

definition result_line :: "(json \<Rightarrow> string) \<Rightarrow> json \<Rightarrow> py_exc + string" where
  "result_line R result =
     and_then (py_getitem result ''Driver'') (\<lambda>driver.
     and_then (py_getitem result ''Constructor'') (\<lambda>constructor.
     and_then (py_getitem result ''position'') (\<lambda>position.
     and_then (py_get result ''points'' (JStr ''0'')) (\<lambda>points.
     and_then (time_status R result) (\<lambda>ts.
     and_then (fmt_item R driver ''givenName'') (\<lambda>given.
     and_then (fmt_item R driver ''familyName'') (\<lambda>family.
     and_then (fmt_item R constructor ''name'') (\<lambda>name.
     Inr (''P'' @ py_str R position @ '': '' @ given @ '' '' @ family @ '' ('' @ name @ '') - ''
            @ py_str R points @ '' pts '' @ ts @ nl)))))))))"

text \<open>Lines 82 to 90.\<close>

definition fastest_lap :: "(json \<Rightarrow> string) \<Rightarrow> json \<Rightarrow> py_exc + string" where
  "fastest_lap R winner =
     and_then (py_in ''FastestLap'' winner) (\<lambda>has_lap.
       if \<not> has_lap then Inr []
       else and_then (py_getitem winner ''FastestLap'') (\<lambda>fastest.
            and_then (py_get fastest ''Time'' (JDict [])) (\<lambda>t.
            and_then (py_get t ''time'' (JStr ''N/A'')) (\<lambda>time.
            and_then (py_get fastest ''lap'' (JStr ''N/A'')) (\<lambda>lap.
            Inr (''**'' @ high_voltage @ '' Fastest Lap:** '' @ py_str R time
                   @ '' (Lap '' @ py_str R lap @ '')'' @ nl))))))"

definition winner_section :: "(json \<Rightarrow> string) \<Rightarrow> json \<Rightarrow> py_exc + string" where
  "winner_section R race =
     and_then (py_getitem race ''Results'') (\<lambda>results.
       if \<not> truthy results then Inr []
       else and_then (py_getitem race ''Results'') (\<lambda>results.
            and_then (py_index0 results) (\<lambda>winner.
            and_then (py_getitem winner ''Driver'') (\<lambda>winner_driver.
            and_then (py_getitem winner ''Constructor'') (\<lambda>winner_constructor.
            and_then (fmt_item R winner_driver ''givenName'') (\<lambda>given.
            and_then (fmt_item R winner_driver ''familyName'') (\<lambda>family.
            and_then (fmt_item R winner_constructor ''name'') (\<lambda>name.
            and_then (fastest_lap R winner) (\<lambda>lap.
            Inr (''**'' @ trophy @ '' Race Winner:** '' @ given @ '' '' @ family
                   @ '' ('' @ name @ '')'' @ nl @ lap))))))))))"

text \<open>Lines 62 to 90.\<close>

definition results_section :: "(json \<Rightarrow> string) \<Rightarrow> json \<Rightarrow> py_exc + string" where
  "results_section R race =
     and_then (py_in ''Results'' race) (\<lambda>has_results.
       if \<not> has_results then Inr []
       else and_then (py_getitem race ''Results'') (\<lambda>results.
            and_then (py_slice10 results) (\<lambda>top.
            and_then (py_iter top) (\<lambda>items.
            and_then (for_each (result_line R) items) (\<lambda>lines.
            and_then (winner_section R race) (\<lambda>winner.
            Inr (''**'' @ trophy @ '' RACE RESULTS:**'' @ nl @ lines @ nl @ winner)))))))"

text \<open>Lines 30 to 92, once both answers are there.\<close>

definition render_race_analysis ::
  "(json \<Rightarrow> string) \<Rightarrow> int \<Rightarrow> int \<Rightarrow> json \<Rightarrow> json \<Rightarrow> py_exc + string" where
  "render_race_analysis R year round_num race_data quali_data =
     (if \<not> truthy race_data
      then Inr (cross_mark @ '' No race data found for '' @ str_int year @ '' round ''
                  @ str_int round_num @ ''.'')
      else and_then (py_in ''MRData'' race_data) (\<lambda>present.
        if \<not> present
        then Inr (cross_mark @ '' No race data found for '' @ str_int year @ '' round ''
                    @ str_int round_num @ ''.'')
        else and_then (py_getitem race_data ''MRData'') (\<lambda>mr_data.
             and_then (py_getitem mr_data ''RaceTable'') (\<lambda>race_table.
             and_then (py_get race_table ''Races'' (JList [])) (\<lambda>races.
               if \<not> truthy races
               then Inr (cross_mark @ '' No race found for '' @ str_int year @ '' round ''
                           @ str_int round_num @ ''.'')
               else and_then (py_index0 races) (\<lambda>race.
                    and_then (py_getitem race ''Circuit'') (\<lambda>circuit.
                    and_then (py_getitem circuit ''Location'') (\<lambda>location.
                    and_then (analysis_header R year race circuit location) (\<lambda>header.
                    and_then (quali_section R quali_data) (\<lambda>quali.
                    and_then (results_section R race) (\<lambda>results.
                    Inr (header @ quali @ results))))))))))))"

text \<open>The tool, lines 20 to 95: two requests, then the text, all inside the handler.\<close>

definition get_race_analysis ::
  "(json \<Rightarrow> string) \<Rightarrow> 'w fetcher \<Rightarrow> int \<Rightarrow> int \<Rightarrow> 'w \<Rightarrow> (py_exc + string) \<times> 'w" where
  "get_race_analysis R fetch year round_num w =
     (let round_identifier = (if round_num = 0 then ''last'' else str_int round_num) in
      case fetch (str_int year @ ''/'' @ round_identifier @ ''/results'') w of
        (Inl e, w1) \<Rightarrow> (failed_to_get ''race analysis'' (Inl e), w1)
      | (Inr race_data, w1) \<Rightarrow>
          (case fetch (str_int year @ ''/'' @ round_identifier @ ''/qualifying'') w1 of
             (Inl e, w2) \<Rightarrow> (failed_to_get ''race analysis'' (Inl e), w2)
           | (Inr quali_data, w2) \<Rightarrow>
               (failed_to_get ''race analysis''
                  (render_race_analysis R year round_num race_data quali_data), w2)))"

section \<open>The latest results formatter: \<open>get_latest_race_results\<close>\<close>

text \<open>Lines 141 to 156 of \<open>race_tools.py\<close>, the block of one result.\<close>

definition latest_time_status :: "(json \<Rightarrow> string) \<Rightarrow> json \<Rightarrow> py_exc + string" where
  "latest_time_status R result =
     and_then (py_in ''Time'' result) (\<lambda>has_time.
       if has_time
       then and_then (py_getitem result ''Time'') (\<lambda>t.
            and_then (fmt_item R t ''time'') (\<lambda>s. Inr (''   Time: '' @ s @ nl)))
       else and_then (py_in ''status'' result) (\<lambda>has_status.
         if has_status
         then and_then (fmt_item R result ''status'') (\<lambda>s. Inr (''   Status: '' @ s @ nl))
         else Inr []))"

definition latest_points :: "(json \<Rightarrow> string) \<Rightarrow> json \<Rightarrow> py_exc + string" where
  "latest_points R result =
     and_then (py_in ''points'' result) (\<lambda>has_points.
       if has_points
       then and_then (fmt_item R result ''points'') (\<lambda>s. Inr (''   Points: '' @ s @ nl))
       else Inr [])"

definition latest_line :: "(json \<Rightarrow> string) \<Rightarrow> json \<Rightarrow> py_exc + string" where
  "latest_line R result =
     and_then (py_getitem result ''Driver'') (\<lambda>driver.
     and_then (py_getitem result ''Constructor'') (\<lambda>constructor.
     and_then (fmt_item R result ''position'') (\<lambda>position.
     and_then (fmt_item R driver ''givenName'') (\<lambda>given.
     and_then (fmt_item R driver ''familyName'') (\<lambda>family.
     and_then (fmt_item R constructor ''name'') (\<lambda>name.
     and_then (latest_time_status R result) (\<lambda>ts.
     and_then (latest_points R result) (\<lambda>pts.
     Inr (''**P'' @ position @ '': '' @ given @ '' '' @ family @ ''** ('' @ name @ '')'' @ nl
            @ ts @ pts @ nl)))))))))"

text \<open>
  Lines 133 to 137. \<open>format_race_datetime\<close> parses and prints a date with the \<open>datetime\<close>
  module inside a handler of its own that returns the raw fields on every \<open>Exception\<close>; the
  text it contributes is the parameter \<open>D\<close>, applied to \<open>race['date']\<close> and
  \<open>race.get('time')\<close>.
\<close>

definition latest_header ::
  "(json \<Rightarrow> string) \<Rightarrow> (json \<Rightarrow> json \<Rightarrow> string) \<Rightarrow> json \<Rightarrow> json \<Rightarrow> json \<Rightarrow> py_exc + string" where
  "latest_header R D race circuit location =
     and_then (fmt_item R race ''raceName'') (\<lambda>race_name.
     and_then (fmt_item R race ''round'') (\<lambda>round.
     and_then (fmt_item R location ''locality'') (\<lambda>locality.
     and_then (fmt_item R location ''country'') (\<lambda>country.
     and_then (fmt_item R circuit ''circuitName'') (\<lambda>circuit_name.
     and_then (py_getitem race ''date'') (\<lambda>date.
     and_then (py_get race ''time'' JNull) (\<lambda>time.
     Inr (chequered_flag @ '' **Latest Race Results**'' @ nl
          @ ''**'' @ race_name @ ''** (Round '' @ round @ '')'' @ nl
          @ ''Location: '' @ locality @ '', '' @ country @ nl
          @ ''Circuit: '' @ circuit_name @ nl
          @ ''Date: '' @ D date time @ nl @ nl))))))))"

definition no_recent_results :: string where
  "no_recent_results =
     chequered_flag @ '' No recent race results available. API might be unavailable.''"

text \<open>Lines 117 to 158.\<close>

definition render_latest_results ::
  "(json \<Rightarrow> string) \<Rightarrow> (json \<Rightarrow> json \<Rightarrow> string) \<Rightarrow> json \<Rightarrow> py_exc + string" where
  "render_latest_results R D data =
     (if \<not> truthy data then Inr no_recent_results
      else and_then (py_in ''MRData'' data) (\<lambda>has_mr.
        if \<not> has_mr then Inr no_recent_results
        else and_then (py_getitem data ''MRData'') (\<lambda>mr_data.
             and_then (py_in ''RaceTable'' mr_data) (\<lambda>has_table.
               if \<not> has_table then Inr no_recent_results
               else and_then (py_getitem mr_data ''RaceTable'') (\<lambda>race_table.
                    and_then (py_getitem race_table ''Races'') (\<lambda>races.
                      if \<not> truthy races
                      then Inr (chequered_flag @ '' No race results found.'')
                      else and_then (py_index0 races) (\<lambda>race.
                           and_then (py_get race ''Results'' (JList [])) (\<lambda>results.
                             if \<not> truthy results
                             then Inr (chequered_flag @ '' Race results not available yet.'')
                             else and_then (py_getitem race ''Circuit'') (\<lambda>circuit.
                                  and_then (py_getitem circuit ''Location'') (\<lambda>location.
                                  and_then (latest_header R D race circuit location) (\<lambda>header.
                                  and_then (py_iter results) (\<lambda>items.
                                  and_then (for_each (latest_line R) items) (\<lambda>lines.
                                  Inr (header @ ''**Final Positions:**'' @ nl
                                         @ lines))))))))))))))"

text \<open>The tool, lines 113 to 161.\<close>

definition get_latest_race_results ::
  "(json \<Rightarrow> string) \<Rightarrow> (json \<Rightarrow> json \<Rightarrow> string) \<Rightarrow> 'w fetcher \<Rightarrow> 'w \<Rightarrow> (py_exc + string) \<times> 'w" where
  "get_latest_race_results R D fetch w =
     (case fetch ''current/last/results'' w of
        (Inl e, w') \<Rightarrow> (failed_to_get ''race results'' (Inl e), w')
      | (Inr data, w') \<Rightarrow> (failed_to_get ''race results'' (render_latest_results R D data), w'))"

section \<open>The career statistics of \<open>get_driver_profile\<close>\<close>

text \<open>
  \<open>int(x)\<close>: an integer as it is, a bool as 0 or 1, a float cut towards zero, a string when
  it is a decimal literal (white space around it, a sign, digits with single underscores
  between them; only the ASCII digits and white space are modelled), with \<open>ValueError\<close> for
  any other string and \<open>TypeError\<close> for \<open>None\<close>, a list or a dict.
\<close>

definition is_space :: "char \<Rightarrow> bool" where
  "is_space c = ((9 \<le> (of_char c :: nat) \<and> (of_char c :: nat) \<le> 13)
               \<or> (28 \<le> (of_char c :: nat) \<and> (of_char c :: nat) \<le> 32))"

definition is_digit :: "char \<Rightarrow> bool" where
  "is_digit c = (48 \<le> (of_char c :: nat) \<and> (of_char c :: nat) \<le> 57)"

definition digit_val :: "char \<Rightarrow> nat" where
  "digit_val c = of_char c - 48"

fun parse_digits :: "string \<Rightarrow> nat \<Rightarrow> nat option" where
  "parse_digits [] acc = Some acc"
| "parse_digits (c # cs) acc =
     (if is_digit c then parse_digits cs (10 * acc + digit_val c)
      else if c = CHR ''_''
      then (case cs of
              [] \<Rightarrow> None
            | d # ds \<Rightarrow> if is_digit d then parse_digits cs acc else None)
      else None)"

definition parse_unsigned :: "string \<Rightarrow> nat option" where
  "parse_unsigned s =
     (case s of [] \<Rightarrow> None | c # cs \<Rightarrow> if is_digit c then parse_digits s 0 else None)"

definition strip :: "string \<Rightarrow> string" where
  "strip s = rev (dropWhile is_space (rev (dropWhile is_space s)))"

definition int_of_str :: "string \<Rightarrow> int option" where
  "int_of_str s =
     (case strip s of
        [] \<Rightarrow> None
      | c # cs \<Rightarrow>
          if c = CHR ''-'' then map_option (\<lambda>n. - int n) (parse_unsigned cs)
          else if c = CHR ''+'' then map_option int (parse_unsigned cs)
          else map_option int (parse_unsigned (c # cs)))"

fun py_int :: "json \<Rightarrow> py_exc + int" where
  "py_int (JInt i) = Inr i"
| "py_int (JBool b) = Inr (if b then 1 else 0)"
| "py_int (JFloat r) = Inr (if 0 \<le> r then \<lfloor>r\<rfloor> else \<lceil>r\<rceil>)"
| "py_int (JStr s) =
     (case int_of_str s of
        Some i \<Rightarrow> Inr i
      | None \<Rightarrow> Inl (ValueError (''invalid literal for int() with base 10: ''
                                  @ [CHR 0x27] @ s @ [CHR 0x27])))"
| "py_int v = Inl (TypeError (''int() argument must be a string, a bytes-like object or a ''
                               @ ''real number, not '' @ [CHR 0x27] @ type_name v @ [CHR 0x27]))"

record career_stats =
  wins :: nat
  podiums :: nat
  points_total :: int
  dnfs :: nat

text \<open>Lines 133 to 143 of \<open>driver_tools.py\<close>: the handler is \<open>except ValueError\<close> only.\<close>

definition count_position :: "career_stats \<Rightarrow> json \<Rightarrow> py_exc + career_stats" where
  "count_position st position =
     (if position \<noteq> JStr ''N/A''
      then (case py_int position of
              Inr pos_int \<Rightarrow>
                Inr (st\<lparr>wins := wins st + (if pos_int = 1 then 1 else 0),
                        podiums := podiums st + (if pos_int \<le> 3 then 1 else 0)\<rparr>)
            | Inl (ValueError m) \<Rightarrow> Inr st
            | Inl e \<Rightarrow> Inl e)
      else Inr (st\<lparr>dnfs := dnfs st + 1\<rparr>))"

text \<open>Lines 146 to 150: the handler is \<open>except (ValueError, TypeError)\<close>.\<close>

definition count_points :: "career_stats \<Rightarrow> json \<Rightarrow> py_exc + career_stats" where
  "count_points st result =
     and_then (py_get result ''points'' (JInt 0)) (\<lambda>p.
       case py_int p of
         Inr points \<Rightarrow> Inr (st\<lparr>points_total := points_total st + points\<rparr>)
       | Inl (ValueError m) \<Rightarrow> Inr st
       | Inl (TypeError m) \<Rightarrow> Inr st
       | Inl e \<Rightarrow> Inl e)"

definition count_result :: "career_stats \<Rightarrow> json \<Rightarrow> py_exc + career_stats" where
  "count_result st result =
     and_then (py_get result ''position'' (JStr ''N/A'')) (\<lambda>position.
     and_then (count_position st position) (\<lambda>st'.
     count_points st' result))"

fun count_results :: "career_stats \<Rightarrow> json list \<Rightarrow> py_exc + career_stats" where
  "count_results st [] = Inr st"
| "count_results st (result # results) =
     and_then (count_result st result) (\<lambda>st'. count_results st' results)"

definition count_race :: "career_stats \<Rightarrow> json \<Rightarrow> py_exc + career_stats" where
  "count_race st race =
     and_then (py_get race ''Results'' (JList [])) (\<lambda>results.
     and_then (py_iter results) (\<lambda>items.
     count_results st items))"

fun count_races :: "career_stats \<Rightarrow> json list \<Rightarrow> py_exc + career_stats" where
  "count_races st [] = Inr st"
| "count_races st (race # races) =
     and_then (count_race st race) (\<lambda>st'. count_races st' races)"

text \<open>Lines 123 to 150, for the value \<open>races\<close> of line 118.\<close>

definition career_statistics :: "json \<Rightarrow> py_exc + career_stats" where
  "career_statistics races =
     and_then (py_iter races) (\<lambda>items.
     count_races \<lparr>wins = 0, podiums = 0, points_total = 0, dnfs = 0\<rparr> items)"

section \<open>Inputs for the statements and examples\<close>

text \<open>What the answer to one probe adds to the list: nothing when the probe or the lines
  after it raised.\<close>

definition probe_entries :: "py_exc + json \<Rightarrow> json list" where
  "probe_entries r = (case and_then r year_standings of Inr found \<Rightarrow> found | Inl e \<Rightarrow> [])"

text \<open>
  The standings lists an envelope of the API holds, read along
  \<open>MRData\<close>, \<open>StandingsTable\<close>, \<open>StandingsLists\<close>; the dicts may hold other keys too.
\<close>

definition envelope_standings_lists :: "json \<Rightarrow> json list option" where
  "envelope_standings_lists v =
     (case v of
        JDict kvs \<Rightarrow>
          (case map_of kvs ''MRData'' of
             Some (JDict mr) \<Rightarrow>
               (case map_of mr ''StandingsTable'' of
                  Some (JDict st) \<Rightarrow>
                    (case map_of st ''StandingsLists'' of
                       Some (JList xs) \<Rightarrow> Some xs
                     | _ \<Rightarrow> None)
                | _ \<Rightarrow> None)
           | _ \<Rightarrow> None)
      | _ \<Rightarrow> None)"

text \<open>
  A fetcher for the examples: seasons 2024, 2022 and 2019 of \<open>hamilton\<close> have standings,
  2021 has an empty list, every other request fails with the fetcher's HTTP error.
\<close>

definition sample_fetcher :: "unit fetcher" where
  "sample_fetcher endpoint w =
     (if endpoint = ''2024/drivers/hamilton/driverStandings''
      then Inr (standings_envelope [JDict [(''season'', JStr ''2024'')]])
      else if endpoint = ''2022/drivers/hamilton/driverStandings''
      then Inr (standings_envelope [JDict [(''season'', JStr ''2022'')], JDict [(''season'', JStr ''2022'')]])
      else if endpoint = ''2019/drivers/hamilton/driverStandings''
      then Inr (standings_envelope [JDict [(''season'', JStr ''2019'')]])
      else if endpoint = ''2021/drivers/hamilton/driverStandings''
      then Inr (standings_envelope [])
      else Inl (McpError INTERNAL_ERROR ''Jolpica F1 API HTTP error 404: Not Found''), w)"

definition sample_entries :: "int \<Rightarrow> json list" where
  "sample_entries y =
     (if y = 2022 then [JDict [(''season'', JStr ''2022'')], JDict [(''season'', JStr ''2022'')]]
      else if y = 2024 then [JDict [(''season'', JStr ''2024'')]]
      else [JDict [(''season'', JStr ''2019'')]])"

text \<open>A fetcher whose request is cancelled: \<open>asyncio.CancelledError\<close> derives from
  \<open>BaseException\<close> only.\<close>

definition cancelled_fetcher :: "unit fetcher" where
  "cancelled_fetcher endpoint w = (Inl (BaseOnly ''CancelledError''), w)"

text \<open>The default of \<open>JOLPICA_BASE_URL\<close> in \<open>config.py\<close>, and an HTTP client for the examples.\<close>

definition JOLPICA_BASE_URL :: string where
  "JOLPICA_BASE_URL = ''https://api.jolpi.ca/ergast/f1''"

definition sample_client :: "unit http_client" where
  "sample_client url w =
     (if url = ''https://api.jolpi.ca/ergast/f1/status.json''
      then Response 200 ''<html>'' (Inl (JSONDecodeError ''Expecting value: line 1 column 1 (char 0)''))
      else if url = ''https://api.jolpi.ca/ergast/f1/seasons.json''
      then Raised (RequestError ''timed out'')
      else if url = ''https://api.jolpi.ca/ergast/f1/circuits.json''
      then Raised (OtherException ''Event loop is closed'')
      else Response 404 ''Not Found''
             (Inl (JSONDecodeError ''Expecting value: line 1 column 1 (char 0)'')), w)"

text \<open>Envelopes of the results endpoint, built from their fields.\<close>

definition result_entry ::
  "string \<Rightarrow> string \<Rightarrow> string \<Rightarrow> string \<Rightarrow> string \<Rightarrow> string \<Rightarrow> json" where
  "result_entry position given family constructor points status =
     JDict [(''position'', JStr position), (''points'', JStr points),
            (''Driver'', JDict [(''givenName'', JStr given), (''familyName'', JStr family)]),
            (''Constructor'', JDict [(''name'', JStr constructor)]),
            (''status'', JStr status)]"

definition race_entry ::
  "string \<Rightarrow> string \<Rightarrow> string \<Rightarrow> string \<Rightarrow> string \<Rightarrow> string \<Rightarrow> json list \<Rightarrow> json" where
  "race_entry race_name round_no date circuit_name locality country results =
     JDict [(''raceName'', JStr race_name), (''round'', JStr round_no), (''date'', JStr date),
            (''Circuit'', JDict [(''circuitName'', JStr circuit_name),
               (''Location'', JDict [(''locality'', JStr locality), (''country'', JStr country)])]),
            (''Results'', JList results)]"

definition race_envelope :: "json list \<Rightarrow> json" where
  "race_envelope races = JDict [(''MRData'', JDict [(''RaceTable'', JDict [(''Races'', JList races)])])]"

definition sample_race :: json where
  "sample_race =
     race_entry ''Bahrain Grand Prix'' ''1'' ''2021-03-28'' ''Bahrain International Circuit''
       ''Sakhir'' ''Bahrain''
       [result_entry ''1'' ''Lewis'' ''Hamilton'' ''Mercedes'' ''25'' ''Finished'',
        result_entry ''2'' ''Max'' ''Verstappen'' ''Red Bull'' ''18'' ''Finished'']"

text \<open>A fetcher that answers the two requests of round 1 of 2021 as given.\<close>

definition race_fetcher :: "py_exc + json \<Rightarrow> py_exc + json \<Rightarrow> unit fetcher" where
  "race_fetcher results quali endpoint w =
     (if endpoint = ''2021/1/results'' then results
      else if endpoint = ''2021/1/qualifying'' then quali
      else Inl (McpError INTERNAL_ERROR ''Jolpica F1 API HTTP error 404: Not Found''), w)"

definition sample_repr :: "json \<Rightarrow> string" where
  "sample_repr v = ''...''"

definition sample_datetime :: "json \<Rightarrow> json \<Rightarrow> string" where
  "sample_datetime date time = ''March 28, 2021 at 15:00 UTC''"

text \<open>What the sample fetcher holds for \<open>hamilton\<close>, year by year.\<close>

definition sample_season_entries :: "int \<Rightarrow> json list" where
  "sample_season_entries y =
     (if y = 2024 then [JDict [(''season'', JStr ''2024'')]]
      else if y = 2022 then [JDict [(''season'', JStr ''2022'')], JDict [(''season'', JStr ''2022'')]]
      else if y = 2019 then [JDict [(''season'', JStr ''2019'')]]
      else [])"

text \<open>
  A client whose response has status 200 and a body that is not valid UTF-8: \<open>json.loads\<close>
  raises \<open>UnicodeDecodeError\<close>, a \<open>ValueError\<close> that is not a \<open>JSONDecodeError\<close>.
\<close>

definition garbled_client :: "unit http_client" where
  "garbled_client url w =
     (Response 200 ''...''
        (Inl (ValueError ([CHR 0x27] @ ''utf-8'' @ [CHR 0x27] @ '' codec can'' @ [CHR 0x27]
                @ ''t decode byte 0xff in position 0: invalid start byte''))), w)"

section \<open>Properties of the fetcher\<close>

lemma lstrip_slash_replicate:
  "lstrip_slash (replicate n (CHR ''/'') @ endpoint) = lstrip_slash endpoint"
  by (induction n) (simp_all add: lstrip_slash_def)

lemma lstrip_slash_idem: "lstrip_slash (lstrip_slash endpoint) = lstrip_slash endpoint"
  unfolding lstrip_slash_def by simp

text \<open>
  Claim C6. The URL is the base, one slash, the fragment without its leading slashes, and
  the suffix \<open>.json\<close>; putting any number of slashes in front of a fragment does not change
  the URL, and stripping a second time changes nothing.
\<close>

theorem request_url_leading_slashes:
  "request_url base endpoint
     = base @ ''/'' @ dropWhile (\<lambda>c. c = CHR ''/'') endpoint @ ''.json''
   \<and> request_url base (replicate n (CHR ''/'') @ endpoint) = request_url base endpoint
   \<and> request_url base (lstrip_slash endpoint) = request_url base endpoint"
  by (simp add: request_url_def lstrip_slash_replicate lstrip_slash_idem)
    (simp add: lstrip_slash_def)

section \<open>Properties of the aggregator\<close>

lemma probe_years_explicit:
  "probe_years cy = [cy, cy - 1, cy - 2, cy - 3, cy - 4, cy - 5, cy - 6, cy - 7, cy - 8, cy - 9]"
  by (simp add: probe_years_def upt_rec)

lemma py_iter_ordinary: "py_iter v = Inl e \<Longrightarrow> is_Exception e"
  by (cases v) auto

lemma py_in_ordinary: "py_in k v = Inl e \<Longrightarrow> is_Exception e"
  by (cases v) auto

lemma py_getitem_ordinary: "py_getitem v k = Inl e \<Longrightarrow> is_Exception e"
  by (cases v) (auto split: option.splits)

lemma py_get_ordinary: "py_get v k d = Inl e \<Longrightarrow> is_Exception e"
  by (cases v) auto

lemma and_then_Inl:
  "and_then m f = Inl e \<longleftrightarrow> m = Inl e \<or> (\<exists>x. m = Inr x \<and> f x = Inl e)"
  by (cases m) (simp_all add: and_then_def)

lemma year_standings_ordinary: "year_standings v = Inl e \<Longrightarrow> is_Exception e"
  unfolding year_standings_def
  by (auto simp: and_then_Inl split: if_splits
      dest: py_iter_ordinary py_in_ordinary py_getitem_ordinary py_get_ordinary)

lemma probe_ordinary:
  assumes "ordinary_fetcher fetch" "and_then (fst (fetch ep w)) year_standings = Inl e"
  shows "is_Exception e"
  using assms unfolding ordinary_fetcher_def
  by (auto simp: and_then_Inl dest: year_standings_ordinary)

lemma career_loop_total:
  "ordinary_fetcher fetch \<Longrightarrow> \<exists>recent. fst (career_loop fetch d years acc w) = Inr recent"
proof (induction years arbitrary: acc w)
  case Nil
  then show ?case by simp
next
  case (Cons y ys)
  obtain r w' where f: "fetch (standings_endpoint y d) w = (r, w')" by (cases "fetch (standings_endpoint y d) w")
  show ?case
  proof (cases "and_then r year_standings")
    case (Inl e)
    with probe_ordinary[OF Cons.prems, of "standings_endpoint y d" w e] f
    have "is_Exception e" by simp
    with Inl f Cons.IH[OF Cons.prems] show ?thesis by simp
  next
    case (Inr found)
    with f Cons.IH[OF Cons.prems] show ?thesis by simp
  qed
qed

lemma career_loop_recording:
  "ordinary_fetcher fetch \<Longrightarrow>
   career_loop (recording fetch) d years acc (calls, w)
     = (fst (career_loop fetch d years acc w),
        (calls @ map (\<lambda>y. standings_endpoint y d) years, snd (career_loop fetch d years acc w)))"
proof (induction years arbitrary: acc w calls)
  case Nil
  then show ?case by simp
next
  case (Cons y ys)
  obtain r w' where f: "fetch (standings_endpoint y d) w = (r, w')" by (cases "fetch (standings_endpoint y d) w")
  then have rf: "recording fetch (standings_endpoint y d) (calls, w) = (r, (calls @ [standings_endpoint y d], w'))"
    by (simp add: recording_def)
  show ?case
  proof (cases "and_then r year_standings")
    case (Inl e)
    with probe_ordinary[OF Cons.prems, of "standings_endpoint y d" w e] f
    have "is_Exception e" by simp
    with Inl f rf Cons.IH[OF Cons.prems] show ?thesis by simp
  next
    case (Inr found)
    with f rf Cons.IH[OF Cons.prems] show ?thesis by simp
  qed
qed

lemma map_of_Some_in_keys: "map_of kvs k = Some v \<Longrightarrow> k \<in> fst ` set kvs"
  by (metis domI dom_map_of_conv_image_fst)

lemma envelope_year_standings:
  assumes "envelope_standings_lists v = Some xs"
  shows "year_standings v = Inr xs"
proof -
  from assms obtain kvs mr st where
    v: "v = JDict kvs" and mr: "map_of kvs ''MRData'' = Some (JDict mr)"
    and st: "map_of mr ''StandingsTable'' = Some (JDict st)"
    and xs: "map_of st ''StandingsLists'' = Some (JList xs)"
    by (auto simp: envelope_standings_lists_def split: json.splits option.splits)
  from mr have ne: "kvs \<noteq> []" by auto
  from mr have k: "''MRData'' \<in> fst ` set kvs" by (rule map_of_Some_in_keys)
  show ?thesis
    using v mr st xs ne k by (simp add: year_standings_def and_then_def)
qed

lemma career_loop_entries:
  assumes "ordinary_fetcher fetch"
    and "\<forall>y\<in>set years. \<forall>w. probe_entries (fst (fetch (standings_endpoint y d) w)) = g y"
  shows "fst (career_loop fetch d years acc w) = Inr (acc @ concat (map g years))"
  using assms(2)
proof (induction years arbitrary: acc w)
  case Nil
  then show ?case by simp
next
  case (Cons y ys)
  obtain r w' where f: "fetch (standings_endpoint y d) w = (r, w')" by (cases "fetch (standings_endpoint y d) w")
  from Cons.prems have g: "probe_entries r = g y" using f by (metis fst_conv list.set_intros(1))
  from Cons.prems have rest: "\<forall>y\<in>set ys. \<forall>w. probe_entries (fst (fetch (standings_endpoint y d) w)) = g y"
    by simp
  show ?case
  proof (cases "and_then r year_standings")
    case (Inl e)
    with probe_ordinary[OF assms(1), of "standings_endpoint y d" w e] f
    have "is_Exception e" by simp
    moreover from Inl g have "g y = []" by (simp add: probe_entries_def)
    ultimately show ?thesis using Inl f Cons.IH[OF rest] by simp
  next
    case (Inr found)
    with g have "g y = found" by (simp add: probe_entries_def)
    with Inr f Cons.IH[OF rest] show ?thesis by simp
  qed
qed

lemma concat_map_filter_nonempty:
  "concat (map g ys) = concat (map g (filter (\<lambda>y. g y \<noteq> []) ys))"
  by (induction ys) simp_all

lemma descending_filter_three:
  fixes a b c :: int
  assumes "sorted_wrt (>) ys" "a \<in> set ys" "b \<in> set ys" "c \<in> set ys" "c < b" "b < a"
  shows "filter (\<lambda>y. y \<in> {a, b, c}) ys = [a, b, c]"
proof -
  have 1: "sorted_wrt (>) (filter (\<lambda>y. y \<in> {a, b, c}) ys)"
    using assms(1) by (rule sorted_wrt_filter)
  have 2: "sorted_wrt (>) [a, b, c]" using assms by simp
  have 3: "set (filter (\<lambda>y. y \<in> {a, b, c}) ys) = set [a, b, c]" using assms by auto
  have 4: "sorted_wrt (<) (rev (filter (\<lambda>y. y \<in> {a, b, c}) ys))"
    using 1 by (simp add: sorted_wrt_rev)
  have 5: "sorted_wrt (<) (rev [a, b, c])" using assms by simp
  have 6: "set (rev (filter (\<lambda>y. y \<in> {a, b, c}) ys)) = set (rev [a, b, c])"
    using 3 by (simp only: set_rev)
  have "rev (filter (\<lambda>y. y \<in> {a, b, c}) ys) = rev [a, b, c]"
    using strict_sorted_equal [OF 5 4 6] .
  then show ?thesis by simp
qed

lemma probe_years_descending: "sorted_wrt (>) (probe_years cy)"
  by (simp add: probe_years_explicit)

lemma get_career_fst:
  "fst (get_driver_career_standings cy fetch d w) =
     (case fst (career_loop fetch d (probe_years cy) [] w) of
        Inr recent \<Rightarrow> Inr (if recent \<noteq> [] then standings_envelope recent else JNull)
      | Inl e \<Rightarrow> if is_Exception e then Inr JNull else Inl e)"
  by (simp add: get_driver_career_standings_def split: prod.splits sum.splits)

lemma get_career_snd:
  "snd (get_driver_career_standings cy fetch d w) = snd (career_loop fetch d (probe_years cy) [] w)"
  by (simp add: get_driver_career_standings_def split: prod.splits sum.splits)

lemma recording_ordinary: "ordinary_fetcher fetch \<Longrightarrow> ordinary_fetcher (recording fetch)"
  unfolding ordinary_fetcher_def recording_def
  by (auto split: prod.splits) (metis fst_conv)

text \<open>
  Claim C1, amended. With a fetcher that answers or fails with an instance of \<open>Exception\<close>,
  the aggregator probes the ten years from the current one downwards: the calls it makes
  are, in this order and once each, the endpoints
  \<open>{year}/drivers/{driver_id}/driverStandings\<close> of those years, whatever the probes answer;
  the function returns a value; and a probe that fails is skipped, the loop going on with
  the next year and the list unchanged.
\<close>


theorem career_scan_probes_ten_years:
  assumes "ordinary_fetcher fetch"
  shows "probe_years cy
           = [cy, cy - 1, cy - 2, cy - 3, cy - 4, cy - 5, cy - 6, cy - 7, cy - 8, cy - 9]
       \<and> fst (snd (get_driver_career_standings cy (recording fetch) d (calls, w)))
           = calls @ map (\<lambda>year. str_int year @ ''/drivers/'' @ d @ ''/driverStandings'')
                         (probe_years cy)
       \<and> (\<exists>v. fst (get_driver_career_standings cy (recording fetch) d (calls, w)) = Inr v)
       \<and> (\<forall>year years acc w e. fst (fetch (standings_endpoint year d) w) = Inl e \<longrightarrow>
             career_loop fetch d (year # years) acc w
               = career_loop fetch d years acc (snd (fetch (standings_endpoint year d) w)))"
proof -
  have a: "fst (snd (get_driver_career_standings cy (recording fetch) d (calls, w)))
           = calls @ map (\<lambda>year. str_int year @ ''/drivers/'' @ d @ ''/driverStandings'')
                         (probe_years cy)"
    using career_loop_recording [OF assms, of d "probe_years cy" "[]" calls w]
    by (simp add: get_career_snd standings_endpoint_def)
  obtain recent where
    "fst (career_loop (recording fetch) d (probe_years cy) [] (calls, w)) = Inr recent"
    using career_loop_total [OF recording_ordinary [OF assms]] by blast
  then have b: "\<exists>v. fst (get_driver_career_standings cy (recording fetch) d (calls, w)) = Inr v"
    by (simp add: get_career_fst)
  have c: "career_loop fetch d (year # years) acc w'
             = career_loop fetch d years acc (snd (fetch (standings_endpoint year d) w'))"
    if "fst (fetch (standings_endpoint year d) w') = Inl e" for year years acc w' e
  proof -
    from that assms have "is_Exception e" unfolding ordinary_fetcher_def by blast
    with that show ?thesis
      by (cases "fetch (standings_endpoint year d) w'") (simp add: and_then_def)
  qed
  show ?thesis using a b c by (simp add: probe_years_explicit)
qed

text \<open>
  Claim C10, amended. Whatever the fetcher returns and whichever instance of \<open>Exception\<close> it
  raises on whichever probe, the aggregator returns \<open>None\<close> or an envelope around a
  non-empty list, and raises nothing.
\<close>

theorem career_standings_total:
  assumes "ordinary_fetcher fetch"
  shows "fst (get_driver_career_standings cy fetch d w) = Inr JNull
       \<or> (\<exists>recent. recent \<noteq> []
            \<and> fst (get_driver_career_standings cy fetch d w) = Inr (standings_envelope recent))"
proof -
  obtain recent where "fst (career_loop fetch d (probe_years cy) [] w) = Inr recent"
    using career_loop_total [OF assms] by blast
  then show ?thesis by (cases "recent = []") (auto simp: get_career_fst)
qed

text \<open>
  Claim C10 as stated fails: an exception that is not an instance of \<open>Exception\<close>, here the
  cancellation of the request on the first probe, passes both handlers and reaches the
  caller.
\<close>

theorem career_standings_base_exception:
  "fst (get_driver_career_standings 2025 cancelled_fetcher ''hamilton'' ())
     = Inl (BaseOnly ''CancelledError'')"
  by (simp add: get_driver_career_standings_def probe_years_explicit cancelled_fetcher_def
      and_then_def)

text \<open>
  Claim C1 as stated fails: the first probe is cancelled, \<open>asyncio.CancelledError\<close> is not an
  instance of \<open>Exception\<close>, the handler of line 129 does not take it, and the scan ends
  after one call instead of ten.
\<close>

theorem career_scan_cancelled_probe:
  "get_driver_career_standings 2025 (recording cancelled_fetcher) ''hamilton'' ([], ())
     = (Inl (BaseOnly ''CancelledError''), ([''2025/drivers/hamilton/driverStandings''], ()))"
  by (simp add: get_driver_career_standings_def probe_years_explicit cancelled_fetcher_def
      recording_def and_then_def standings_endpoint_def str_int_def)

text \<open>Claim C1, amended, at the sample fetcher, in 2025.\<close>

theorem career_scan_probes_ten_years_witness:
  "ordinary_fetcher sample_fetcher
   \<and> fst (snd (get_driver_career_standings 2025 (recording sample_fetcher) ''hamilton'' ([], ())))
       = [''2025/drivers/hamilton/driverStandings'', ''2024/drivers/hamilton/driverStandings'',
          ''2023/drivers/hamilton/driverStandings'', ''2022/drivers/hamilton/driverStandings'',
          ''2021/drivers/hamilton/driverStandings'', ''2020/drivers/hamilton/driverStandings'',
          ''2019/drivers/hamilton/driverStandings'', ''2018/drivers/hamilton/driverStandings'',
          ''2017/drivers/hamilton/driverStandings'', ''2016/drivers/hamilton/driverStandings'']"
proof -
  have h: "ordinary_fetcher sample_fetcher"
    by (auto simp: ordinary_fetcher_def sample_fetcher_def split: if_splits)
  show ?thesis
    using h career_scan_probes_ten_years [OF h, of 2025 "''hamilton''" "[]" "()"]
    by (simp add: str_int_def)
qed

text \<open>Claim C10, amended, at the sample fetcher and a driver it knows nothing of.\<close>

theorem career_standings_total_witness:
  "ordinary_fetcher sample_fetcher
   \<and> (fst (get_driver_career_standings 2025 sample_fetcher ''rosberg'' ()) = Inr JNull
      \<or> (\<exists>recent. recent \<noteq> []
           \<and> fst (get_driver_career_standings 2025 sample_fetcher ''rosberg'' ())
               = Inr (standings_envelope recent)))"
proof -
  have h: "ordinary_fetcher sample_fetcher"
    by (auto simp: ordinary_fetcher_def sample_fetcher_def split: if_splits)
  show ?thesis
    using h career_standings_total [OF h, of 2025 "''rosberg''" "()"] by simp
qed

text \<open>
  Claim C2. When the probes of exactly three of the ten years, \<open>a > b > c\<close>, answer with
  an envelope holding a non-empty standings list, and every other probe fails or answers
  with an empty list, the aggregator returns the envelope around the entries of \<open>a\<close>,
  then those of \<open>b\<close>, then those of \<open>c\<close>, as they came: nothing from another year, nothing
  removed.
\<close>

theorem career_three_seasons:
  assumes "ordinary_fetcher fetch"
    and "a \<in> set (probe_years cy)" and "b \<in> set (probe_years cy)" and "c \<in> set (probe_years cy)"
    and "c < b" and "b < a"
    and "\<forall>y\<in>{a, b, c}. \<forall>w. \<exists>v. fst (fetch (standings_endpoint y d) w) = Inr v
            \<and> envelope_standings_lists v = Some (E y) \<and> E y \<noteq> []"
    and "\<forall>y\<in>set (probe_years cy) - {a, b, c}. \<forall>w.
            (\<exists>e. fst (fetch (standings_endpoint y d) w) = Inl e)
          \<or> (\<exists>v. fst (fetch (standings_endpoint y d) w) = Inr v
                 \<and> envelope_standings_lists v = Some [])"
  shows "fst (get_driver_career_standings cy fetch d w)
           = Inr (standings_envelope (E a @ E b @ E c))"
proof -
  define g where "g y = (if y \<in> {a, b, c} then E y else [])" for y
  have entries: "\<forall>y\<in>set (probe_years cy). \<forall>w.
      probe_entries (fst (fetch (standings_endpoint y d) w)) = g y"
  proof (intro ballI allI)
    fix y w assume y: "y \<in> set (probe_years cy)"
    show "probe_entries (fst (fetch (standings_endpoint y d) w)) = g y"
    proof (cases "y \<in> {a, b, c}")
      case True
      with assms(7) obtain v where "fst (fetch (standings_endpoint y d) w) = Inr v"
        "envelope_standings_lists v = Some (E y)" by blast
      with True show ?thesis
        by (simp add: probe_entries_def and_then_def envelope_year_standings g_def)
    next
      case False
      with y assms(8) have
        "(\<exists>e. fst (fetch (standings_endpoint y d) w) = Inl e)
         \<or> (\<exists>v. fst (fetch (standings_endpoint y d) w) = Inr v
                \<and> envelope_standings_lists v = Some [])" by blast
      with False show ?thesis
        by (auto simp: probe_entries_def and_then_def envelope_year_standings g_def)
    qed
  qed
  have ne: "g y \<noteq> [] \<longleftrightarrow> y \<in> {a, b, c}" for y
    using assms(7) by (auto simp: g_def)
  have "concat (map g (probe_years cy))
          = concat (map g (filter (\<lambda>y. y \<in> {a, b, c}) (probe_years cy)))"
    using concat_map_filter_nonempty [of g "probe_years cy"] by (simp only: ne)
  also have "\<dots> = concat (map g [a, b, c])"
    using descending_filter_three [OF probe_years_descending assms(2-6)] by simp
  also have "\<dots> = E a @ E b @ E c" by (simp add: g_def)
  finally have c: "concat (map g (probe_years cy)) = E a @ E b @ E c" .
  have "fst (career_loop fetch d (probe_years cy) [] w) = Inr (E a @ E b @ E c)"
    using career_loop_entries [OF assms(1) entries, of "[]" w] c by simp
  moreover have "E a @ E b @ E c \<noteq> []" using assms(7) by blast
  ultimately show ?thesis by (simp add: get_career_fst)
qed

lemma career_loop_gathers:
  assumes "\<forall>y\<in>set years. \<forall>w.
              (\<exists>e. fst (fetch (standings_endpoint y d) w) = Inl e \<and> is_Exception e \<and> E y = [])
            \<or> (\<exists>v. fst (fetch (standings_endpoint y d) w) = Inr v
                   \<and> envelope_standings_lists v = Some (E y))"
  shows "fst (career_loop fetch d years acc w) = Inr (acc @ concat (map E years))"
  using assms
proof (induction years arbitrary: acc w)
  case Nil
  then show ?case by simp
next
  case (Cons y ys)
  obtain r w' where f: "fetch (standings_endpoint y d) w = (r, w')"
    by (cases "fetch (standings_endpoint y d) w")
  from Cons.prems have rest: "\<forall>y\<in>set ys. \<forall>w.
              (\<exists>e. fst (fetch (standings_endpoint y d) w) = Inl e \<and> is_Exception e \<and> E y = [])
            \<or> (\<exists>v. fst (fetch (standings_endpoint y d) w) = Inr v
                   \<and> envelope_standings_lists v = Some (E y))"
    by simp
  from Cons.prems f have
    "(\<exists>e. r = Inl e \<and> is_Exception e \<and> E y = [])
     \<or> (\<exists>v. r = Inr v \<and> envelope_standings_lists v = Some (E y))"
    by (metis fst_conv list.set_intros(1))
  then show ?case
  proof
    assume "\<exists>e. r = Inl e \<and> is_Exception e \<and> E y = []"
    then obtain e where "r = Inl e" "is_Exception e" "E y = []" by blast
    with f Cons.IH [OF rest] show ?thesis by (simp add: and_then_def)
  next
    assume "\<exists>v. r = Inr v \<and> envelope_standings_lists v = Some (E y)"
    then obtain v where "r = Inr v" "envelope_standings_lists v = Some (E y)" by blast
    with f Cons.IH [OF rest] show ?thesis
      by (simp add: and_then_def envelope_year_standings)
  qed
qed

text \<open>
  Claim C3. When each of the ten probes answers with an envelope, holding the standings
  lists \<open>E y\<close> of its year, or fails with an instance of \<open>Exception\<close>, adding nothing,
  the aggregator returns the dict with the one key \<open>MRData\<close>, holding the one key
  \<open>StandingsTable\<close>, holding the one key \<open>StandingsLists\<close> with the accumulated list, when
  that list is not empty, and \<open>None\<close> when it is empty; with no standings in any of the
  ten years it returns \<open>None\<close>, as a value and not as an exception.
\<close>

theorem career_envelope_or_absence:
  assumes "\<forall>y\<in>set (probe_years cy). \<forall>w.
              (\<exists>e. fst (fetch (standings_endpoint y d) w) = Inl e \<and> is_Exception e \<and> E y = [])
            \<or> (\<exists>v. fst (fetch (standings_endpoint y d) w) = Inr v
                   \<and> envelope_standings_lists v = Some (E y))"
  shows "fst (get_driver_career_standings cy fetch d w)
           = (if concat (map E (probe_years cy)) = [] then Inr JNull
              else Inr (JDict [(''MRData'',
                     JDict [(''StandingsTable'',
                       JDict [(''StandingsLists'', JList (concat (map E (probe_years cy))))])])]))
       \<and> ((\<forall>y\<in>set (probe_years cy). E y = [])
            \<longrightarrow> fst (get_driver_career_standings cy fetch d w) = Inr JNull)"
proof -
  have l: "fst (career_loop fetch d (probe_years cy) [] w)
             = Inr (concat (map E (probe_years cy)))"
    using career_loop_gathers [OF assms, of "[]" w] by simp
  have 1: "fst (get_driver_career_standings cy fetch d w)
           = (if concat (map E (probe_years cy)) = [] then Inr JNull
              else Inr (JDict [(''MRData'',
                     JDict [(''StandingsTable'',
                       JDict [(''StandingsLists'', JList (concat (map E (probe_years cy))))])])]))"
    by (simp add: get_career_fst l standings_envelope_def)
  have 2: "concat (map E (probe_years cy)) = []" if "\<forall>y\<in>set (probe_years cy). E y = []"
    using that by simp
  show ?thesis using 1 2 by simp
qed


section \<open>The sample fetcher\<close>

lemma sample_endpoint:
  "standings_endpoint 2025 d = ''2025/drivers/'' @ d @ ''/driverStandings''"
  "standings_endpoint 2024 d = ''2024/drivers/'' @ d @ ''/driverStandings''"
  "standings_endpoint 2023 d = ''2023/drivers/'' @ d @ ''/driverStandings''"
  "standings_endpoint 2022 d = ''2022/drivers/'' @ d @ ''/driverStandings''"
  "standings_endpoint 2021 d = ''2021/drivers/'' @ d @ ''/driverStandings''"
  "standings_endpoint 2020 d = ''2020/drivers/'' @ d @ ''/driverStandings''"
  "standings_endpoint 2019 d = ''2019/drivers/'' @ d @ ''/driverStandings''"
  "standings_endpoint 2018 d = ''2018/drivers/'' @ d @ ''/driverStandings''"
  "standings_endpoint 2017 d = ''2017/drivers/'' @ d @ ''/driverStandings''"
  "standings_endpoint 2016 d = ''2016/drivers/'' @ d @ ''/driverStandings''"
  by (simp_all add: standings_endpoint_def str_int_def)

lemma sample_three_seasons: "\<forall>y\<in>{2024, 2022, 2019}. \<forall>w. \<exists>v.
              fst (sample_fetcher (standings_endpoint y ''hamilton'') w) = Inr v
            \<and> envelope_standings_lists v = Some (sample_entries y) \<and> sample_entries y \<noteq> []"
  by (simp add: sample_endpoint sample_fetcher_def sample_entries_def
        envelope_standings_lists_def standings_envelope_def)


lemma sample_other_seasons: "\<forall>y\<in>set (probe_years 2025) - {2024, 2022, 2019}. \<forall>w.
            (\<exists>e. fst (sample_fetcher (standings_endpoint y ''hamilton'') w) = Inl e)
          \<or> (\<exists>v. fst (sample_fetcher (standings_endpoint y ''hamilton'') w) = Inr v
                 \<and> envelope_standings_lists v = Some [])"
  by (auto simp: probe_years_explicit sample_endpoint sample_fetcher_def
        envelope_standings_lists_def standings_envelope_def)

text \<open>Claim C2 at the sample fetcher: seasons 2024, 2022 (two equal entries, both kept) and
  2019, in that order.\<close>

theorem career_three_seasons_witness:
  "fst (get_driver_career_standings 2025 sample_fetcher ''hamilton'' ())
     = Inr (standings_envelope
         [JDict [(''season'', JStr ''2024'')],
          JDict [(''season'', JStr ''2022'')], JDict [(''season'', JStr ''2022'')],
          JDict [(''season'', JStr ''2019'')]])"
proof -
  have h1: "ordinary_fetcher sample_fetcher"
    by (auto simp: ordinary_fetcher_def sample_fetcher_def split: if_splits)
  have h2: "2024 \<in> set (probe_years 2025)" by (simp add: probe_years_explicit)
  have h3: "2022 \<in> set (probe_years 2025)" by (simp add: probe_years_explicit)
  have h4: "2019 \<in> set (probe_years 2025)" by (simp add: probe_years_explicit)
  have h5: "(2019::int) < 2022" by simp
  have h6: "(2022::int) < 2024" by simp
  have e: "sample_entries 2024 @ sample_entries 2022 @ sample_entries 2019
             = [JDict [(''season'', JStr ''2024'')],
                JDict [(''season'', JStr ''2022'')], JDict [(''season'', JStr ''2022'')],
                JDict [(''season'', JStr ''2019'')]]"
    by (simp add: sample_entries_def)
  show ?thesis
    using career_three_seasons [OF h1 h2 h3 h4 h5 h6 sample_three_seasons sample_other_seasons, of "()"]
    by (simp only: e)
qed

lemma sample_seasons_answer:
  "\<forall>y\<in>set (probe_years 2025). \<forall>w.
     (\<exists>e. fst (sample_fetcher (standings_endpoint y ''hamilton'') w) = Inl e \<and> is_Exception e
          \<and> sample_season_entries y = [])
   \<or> (\<exists>v. fst (sample_fetcher (standings_endpoint y ''hamilton'') w) = Inr v
          \<and> envelope_standings_lists v = Some (sample_season_entries y))"
  by (simp add: probe_years_explicit sample_endpoint sample_fetcher_def sample_season_entries_def
      envelope_standings_lists_def standings_envelope_def)

lemma sample_no_seasons:
  "\<forall>y\<in>set (probe_years 2025). \<forall>w.
     (\<exists>e. fst (sample_fetcher (standings_endpoint y ''rosberg'') w) = Inl e \<and> is_Exception e
          \<and> ([] :: json list) = [])
   \<or> (\<exists>v. fst (sample_fetcher (standings_endpoint y ''rosberg'') w) = Inr v
          \<and> envelope_standings_lists v = Some [])"
  by (simp add: probe_years_explicit sample_endpoint sample_fetcher_def)

text \<open>Claim C3 at the sample fetcher: a driver with seasons, then a driver with none.\<close>

theorem career_envelope_or_absence_witness:
  "fst (get_driver_career_standings 2025 sample_fetcher ''hamilton'' ())
     = Inr (JDict [(''MRData'',
              JDict [(''StandingsTable'',
                JDict [(''StandingsLists'',
                  JList [JDict [(''season'', JStr ''2024'')],
                         JDict [(''season'', JStr ''2022'')], JDict [(''season'', JStr ''2022'')],
                         JDict [(''season'', JStr ''2019'')]])])])])
   \<and> fst (get_driver_career_standings 2025 sample_fetcher ''rosberg'' ()) = Inr JNull"
proof -
  have c: "concat (map sample_season_entries (probe_years 2025))
             = [JDict [(''season'', JStr ''2024'')],
                JDict [(''season'', JStr ''2022'')], JDict [(''season'', JStr ''2022'')],
                JDict [(''season'', JStr ''2019'')]]"
    by (simp add: probe_years_explicit sample_season_entries_def)
  have a: "fst (get_driver_career_standings 2025 sample_fetcher ''hamilton'' ())
     = Inr (JDict [(''MRData'',
              JDict [(''StandingsTable'',
                JDict [(''StandingsLists'',
                  JList [JDict [(''season'', JStr ''2024'')],
                         JDict [(''season'', JStr ''2022'')], JDict [(''season'', JStr ''2022'')],
                         JDict [(''season'', JStr ''2019'')]])])])])"
    using career_envelope_or_absence [OF sample_seasons_answer, of "()"] by (simp add: c)
  have b: "fst (get_driver_career_standings 2025 sample_fetcher ''rosberg'' ()) = Inr JNull"
    using career_envelope_or_absence [OF sample_no_seasons, of "()"] by simp
  show ?thesis using a b by simp
qed


section \<open>Failures of the fetcher\<close>

lemma request_handlers_other:
  assumes "is_Exception e" and "\<forall>status body. e \<noteq> HTTPStatusError status body"
    and "\<forall>m. e \<noteq> RequestError m" and "\<forall>m. e \<noteq> JSONDecodeError m"
  shows "request_handlers e
           = McpError INTERNAL_ERROR (''Jolpica F1 API unexpected error: '' @ str_exc e)"
  using assms by (cases e) simp_all

text \<open>
  Claim C4, amended. The fetcher classifies a failure by its cause: a response with a
  status of 400 or more gives the HTTP error, whose message holds the status code and the
  body text; a 2xx response on whose body the parser raises \<open>JSONDecodeError\<close> gives the
  decode error; a transport failure gives the network error; every other instance of
  \<open>Exception\<close> raised in the \<open>try\<close> block, by the client, by the parser or by the logging
  lines, gives the unexpected error. The kinds are the four message prefixes of one
  exception class.
\<close>

theorem fetcher_classifies_failures:
  assumes "client (request_url base endpoint) w = (r, w')"
  shows "(\<forall>status body parsed. r = Response status body parsed \<and> 400 \<le> status \<longrightarrow>
            make_jolpica_request base client endpoint w
              = (Inl (McpError INTERNAL_ERROR
                   (''Jolpica F1 API HTTP error '' @ str_int status @ '': '' @ body)), w'))
       \<and> (\<forall>status body m. r = Response status body (Inl (JSONDecodeError m))
              \<and> 200 \<le> status \<and> status < 300 \<longrightarrow>
            make_jolpica_request base client endpoint w
              = (Inl (McpError INTERNAL_ERROR
                   (''Invalid JSON response from Jolpica F1 API: '' @ m)), w'))
       \<and> (\<forall>m. r = Raised (RequestError m) \<longrightarrow>
            make_jolpica_request base client endpoint w
              = (Inl (McpError INTERNAL_ERROR (''Jolpica F1 API network error: '' @ m)), w'))
       \<and> (\<forall>e. request_body r = Inl e \<and> is_Exception e
              \<and> (\<forall>status body. e \<noteq> HTTPStatusError status body)
              \<and> (\<forall>m. e \<noteq> RequestError m) \<and> (\<forall>m. e \<noteq> JSONDecodeError m) \<longrightarrow>
            make_jolpica_request base client endpoint w
              = (Inl (McpError INTERNAL_ERROR
                   (''Jolpica F1 API unexpected error: '' @ str_exc e)), w'))
       \<and> (\<forall>e. r = Raised e \<longrightarrow> request_body r = Inl e)
       \<and> (\<forall>status body e. r = Response status body (Inl e) \<and> 200 \<le> status \<and> status < 300
              \<longrightarrow> request_body r = Inl e)
       \<and> (\<forall>status body json_data e. r = Response status body (Inr json_data)
              \<and> 200 \<le> status \<and> status < 300 \<and> log_structure json_data = Inl e
              \<longrightarrow> request_body r = Inl e)"
proof -
  have 1: "\<forall>status body parsed. r = Response status body parsed \<and> 400 \<le> status \<longrightarrow>
            make_jolpica_request base client endpoint w
              = (Inl (McpError INTERNAL_ERROR
                   (''Jolpica F1 API HTTP error '' @ str_int status @ '': '' @ body)), w')"
    using assms
    by (simp add: make_jolpica_request_def request_outcome_def request_body_def
        raise_for_status_def and_then_def)
  have 2: "\<forall>status body m. r = Response status body (Inl (JSONDecodeError m))
              \<and> 200 \<le> status \<and> status < 300 \<longrightarrow>
            make_jolpica_request base client endpoint w
              = (Inl (McpError INTERNAL_ERROR
                   (''Invalid JSON response from Jolpica F1 API: '' @ m)), w')"
    using assms
    by (simp add: make_jolpica_request_def request_outcome_def request_body_def
        raise_for_status_def and_then_def)
  have 3: "\<forall>m. r = Raised (RequestError m) \<longrightarrow>
            make_jolpica_request base client endpoint w
              = (Inl (McpError INTERNAL_ERROR (''Jolpica F1 API network error: '' @ m)), w')"
    using assms
    by (simp add: make_jolpica_request_def request_outcome_def request_body_def)
  have 4: "\<forall>e. request_body r = Inl e \<and> is_Exception e
              \<and> (\<forall>status body. e \<noteq> HTTPStatusError status body)
              \<and> (\<forall>m. e \<noteq> RequestError m) \<and> (\<forall>m. e \<noteq> JSONDecodeError m) \<longrightarrow>
            make_jolpica_request base client endpoint w
              = (Inl (McpError INTERNAL_ERROR
                   (''Jolpica F1 API unexpected error: '' @ str_exc e)), w')"
    using assms
    by (simp add: make_jolpica_request_def request_outcome_def request_handlers_other)
  have 5: "\<forall>e. r = Raised e \<longrightarrow> request_body r = Inl e"
    by (simp add: request_body_def)
  have 6: "\<forall>status body e. r = Response status body (Inl e) \<and> 200 \<le> status \<and> status < 300
              \<longrightarrow> request_body r = Inl e"
    by (simp add: request_body_def raise_for_status_def and_then_def)
  have 7: "\<forall>status body json_data e. r = Response status body (Inr json_data)
              \<and> 200 \<le> status \<and> status < 300 \<and> log_structure json_data = Inl e
              \<longrightarrow> request_body r = Inl e"
    by (simp add: request_body_def raise_for_status_def and_then_def)
  show ?thesis using 1 2 3 4 5 6 7 by blast
qed

text \<open>
  Claim C4 as stated fails: a 2xx response whose body is not parseable, because it is not
  valid UTF-8, does not give the decode error but the unexpected error.
\<close>

theorem fetcher_undecodable_body:
  "make_jolpica_request JOLPICA_BASE_URL garbled_client ''status'' ()
     = (Inl (McpError INTERNAL_ERROR
          (''Jolpica F1 API unexpected error: '' @ [CHR 0x27] @ ''utf-8'' @ [CHR 0x27]
             @ '' codec can'' @ [CHR 0x27]
             @ ''t decode byte 0xff in position 0: invalid start byte'')), ())"
  by (simp add: make_jolpica_request_def garbled_client_def request_outcome_def request_body_def
      raise_for_status_def and_then_def)


lemma request_handlers_uniform:
  "is_Exception (request_handlers e) \<Longrightarrow>
   request_handlers e = McpError INTERNAL_ERROR (str_exc (request_handlers e))"
  by (cases e) simp_all

text \<open>
  Claim C5. Whatever makes the fetcher fail, what the caller receives is an \<open>McpError\<close> with
  the one code \<open>INTERNAL_ERROR\<close>: the error is that code and its message, so two failures
  differ only by their message text.
\<close>

theorem fetcher_failures_uniform:
  assumes "fst (make_jolpica_request base client endpoint w) = Inl e" and "is_Exception e"
  shows "e = McpError INTERNAL_ERROR (str_exc e)"
proof -
  obtain r w' where c: "client (request_url base endpoint) w = (r, w')"
    by (cases "client (request_url base endpoint) w")
  with assms(1) obtain e' where "request_body r = Inl e'" "e = request_handlers e'"
    by (auto simp: make_jolpica_request_def request_outcome_def split: sum.splits)
  with assms(2) show ?thesis using request_handlers_uniform [of e'] by simp
qed

lemma sample_urls:
  "request_url JOLPICA_BASE_URL ''/drivers/nobody'' = ''https://api.jolpi.ca/ergast/f1/drivers/nobody.json''"
  "request_url JOLPICA_BASE_URL ''status'' = ''https://api.jolpi.ca/ergast/f1/status.json''"
  "request_url JOLPICA_BASE_URL ''seasons'' = ''https://api.jolpi.ca/ergast/f1/seasons.json''"
  "request_url JOLPICA_BASE_URL ''circuits'' = ''https://api.jolpi.ca/ergast/f1/circuits.json''"
  by (simp_all add: request_url_def JOLPICA_BASE_URL_def lstrip_slash_def)

text \<open>Claim C4, amended, at the sample clients: one request for each cause.\<close>

theorem fetcher_classifies_failures_witness:
  "make_jolpica_request JOLPICA_BASE_URL sample_client ''/drivers/nobody'' ()
     = (Inl (McpError INTERNAL_ERROR ''Jolpica F1 API HTTP error 404: Not Found''), ())
   \<and> make_jolpica_request JOLPICA_BASE_URL sample_client ''status'' ()
     = (Inl (McpError INTERNAL_ERROR
          ''Invalid JSON response from Jolpica F1 API: Expecting value: line 1 column 1 (char 0)''), ())
   \<and> make_jolpica_request JOLPICA_BASE_URL sample_client ''seasons'' ()
     = (Inl (McpError INTERNAL_ERROR ''Jolpica F1 API network error: timed out''), ())
   \<and> make_jolpica_request JOLPICA_BASE_URL sample_client ''circuits'' ()
     = (Inl (McpError INTERNAL_ERROR ''Jolpica F1 API unexpected error: Event loop is closed''), ())
   \<and> make_jolpica_request JOLPICA_BASE_URL garbled_client ''status'' ()
     = (Inl (McpError INTERNAL_ERROR
          (''Jolpica F1 API unexpected error: '' @ [CHR 0x27] @ ''utf-8'' @ [CHR 0x27]
             @ '' codec can'' @ [CHR 0x27]
             @ ''t decode byte 0xff in position 0: invalid start byte'')), ())"
proof -
  have a: "sample_client (request_url JOLPICA_BASE_URL ''/drivers/nobody'') ()
             = (Response 404 ''Not Found''
                  (Inl (JSONDecodeError ''Expecting value: line 1 column 1 (char 0)'')), ())"
    by (simp add: sample_urls sample_client_def)
  have b: "sample_client (request_url JOLPICA_BASE_URL ''status'') ()
             = (Response 200 ''<html>''
                  (Inl (JSONDecodeError ''Expecting value: line 1 column 1 (char 0)'')), ())"
    by (simp add: sample_urls sample_client_def)
  have c: "sample_client (request_url JOLPICA_BASE_URL ''seasons'') ()
             = (Raised (RequestError ''timed out''), ())"
    by (simp add: sample_urls sample_client_def)
  have d: "sample_client (request_url JOLPICA_BASE_URL ''circuits'') ()
             = (Raised (OtherException ''Event loop is closed''), ())"
    by (simp add: sample_urls sample_client_def)
  have e: "garbled_client (request_url JOLPICA_BASE_URL ''status'') ()
             = (Response 200 ''...''
                  (Inl (ValueError ([CHR 0x27] @ ''utf-8'' @ [CHR 0x27] @ '' codec can''
                     @ [CHR 0x27] @ ''t decode byte 0xff in position 0: invalid start byte''))),
                ())"
    by (simp add: garbled_client_def)
  show ?thesis
    using
      fetcher_classifies_failures [where client = sample_client and base = JOLPICA_BASE_URL
        and endpoint = "''/drivers/nobody''" and w = "()", OF a]
      fetcher_classifies_failures [where client = sample_client and base = JOLPICA_BASE_URL
        and endpoint = "''status''" and w = "()", OF b]
      fetcher_classifies_failures [where client = sample_client and base = JOLPICA_BASE_URL
        and endpoint = "''seasons''" and w = "()", OF c]
      fetcher_classifies_failures [where client = sample_client and base = JOLPICA_BASE_URL
        and endpoint = "''circuits''" and w = "()", OF d]
      fetcher_classifies_failures [where client = garbled_client and base = JOLPICA_BASE_URL
        and endpoint = "''status''" and w = "()", OF e]
    by (simp add: str_int_def request_body_def raise_for_status_def and_then_def)
qed


text \<open>Claim C5 at the sample client and a request that times out.\<close>

theorem fetcher_failures_uniform_witness:
  "fst (make_jolpica_request JOLPICA_BASE_URL sample_client ''seasons'' ())
     = Inl (McpError INTERNAL_ERROR ''Jolpica F1 API network error: timed out'')
   \<and> is_Exception (McpError INTERNAL_ERROR ''Jolpica F1 API network error: timed out'')
   \<and> McpError INTERNAL_ERROR ''Jolpica F1 API network error: timed out''
       = McpError INTERNAL_ERROR
           (str_exc (McpError INTERNAL_ERROR ''Jolpica F1 API network error: timed out''))"
proof -
  have a: "fst (make_jolpica_request JOLPICA_BASE_URL sample_client ''seasons'' ())
     = Inl (McpError INTERNAL_ERROR ''Jolpica F1 API network error: timed out'')"
    by (simp add: make_jolpica_request_def sample_urls sample_client_def request_outcome_def
        request_body_def)
  have b: "is_Exception (McpError INTERNAL_ERROR ''Jolpica F1 API network error: timed out'')"
    by simp
  show ?thesis using a b fetcher_failures_uniform [OF a b] by simp
qed

section \<open>The career statistics\<close>

lemma sample_positions:
  "py_int (JStr ''1'') = Inr 1"
  "py_int (JStr ''3'') = Inr 3"
  "py_int (JStr ''12'') = Inr 12"
  "py_int (JStr ''R'') = Inl (ValueError (''invalid literal for int() with base 10: '' @ [CHR 0x27] @ ''R'' @ [CHR 0x27]))"
  by (simp_all add: int_of_str_def strip_def is_space_def parse_unsigned_def is_digit_def
      digit_val_def)

lemma count_results_snoc:
  "count_results st (results @ [result])
     = and_then (count_results st results) (\<lambda>st'. count_result st' result)"
proof (induction results arbitrary: st)
  case Nil
  show ?case by (cases "count_result st result") (simp_all add: and_then_def)
next
  case (Cons r rs)
  show ?case by (cases "count_result st r") (simp_all add: and_then_def Cons.IH)
qed

text \<open>
  Claim C9, amended. A result whose position is missing or is the string \<open>N/A\<close> adds one to
  the DNF count; any other position that \<open>int\<close> accepts adds one to the wins when it is 1
  and one to the podiums when it is at most 3; any other position that \<open>int\<close> rejects with
  \<open>ValueError\<close> changes no count. The results are counted one after the other, from the
  first to the last.
\<close>

theorem career_position_counting:
  "count_position st (JStr ''N/A'') = Inr (st\<lparr>dnfs := dnfs st + 1\<rparr>)
   \<and> (map_of kvs ''position'' = None \<longrightarrow>
        count_result st (JDict kvs)
          = count_points (st\<lparr>dnfs := dnfs st + 1\<rparr>) (JDict kvs))
   \<and> (position \<noteq> JStr ''N/A'' \<and> py_int position = Inr n \<longrightarrow>
        count_position st position
          = Inr (st\<lparr>wins := wins st + (if n = 1 then 1 else 0),
                     podiums := podiums st + (if n \<le> 3 then 1 else 0)\<rparr>))
   \<and> (position \<noteq> JStr ''N/A'' \<and> py_int position = Inl (ValueError m) \<longrightarrow>
        count_position st position = Inr st)
   \<and> count_results st (results @ [result])
        = and_then (count_results st results) (\<lambda>st'. count_result st' result)"
  by (simp add: count_position_def count_result_def and_then_def count_results_snoc)

text \<open>
  Claim C9 as stated fails: a result with the non-numeric position \<open>R\<close> is not counted as
  a DNF, nor as anything else.
\<close>

theorem career_position_retired:
  "career_statistics
     (JList [JDict [(''raceName'', JStr ''Monaco Grand Prix''),
                    (''Results'', JList [JDict [(''position'', JStr ''R''),
                                                (''points'', JStr ''0'')]])]])
   = Inr \<lparr>wins = 0, podiums = 0, points_total = 0, dnfs = 0\<rparr>"
  by (simp add: career_statistics_def count_race_def count_result_def count_position_def
      count_points_def and_then_def int_of_str_def strip_def is_space_def parse_unsigned_def
      is_digit_def digit_val_def)

text \<open>Claim C9, amended, at the positions 1, 3, 12 and R and at a result without position.\<close>

theorem career_position_counting_witness:
  "count_position \<lparr>wins = 0, podiums = 0, points_total = 0, dnfs = 0\<rparr> (JStr ''1'')
     = Inr \<lparr>wins = 1, podiums = 1, points_total = 0, dnfs = 0\<rparr>
   \<and> count_position \<lparr>wins = 0, podiums = 0, points_total = 0, dnfs = 0\<rparr> (JStr ''3'')
     = Inr \<lparr>wins = 0, podiums = 1, points_total = 0, dnfs = 0\<rparr>
   \<and> count_position \<lparr>wins = 0, podiums = 0, points_total = 0, dnfs = 0\<rparr> (JStr ''12'')
     = Inr \<lparr>wins = 0, podiums = 0, points_total = 0, dnfs = 0\<rparr>
   \<and> count_position \<lparr>wins = 0, podiums = 0, points_total = 0, dnfs = 0\<rparr> (JStr ''R'')
     = Inr \<lparr>wins = 0, podiums = 0, points_total = 0, dnfs = 0\<rparr>
   \<and> count_result \<lparr>wins = 0, podiums = 0, points_total = 0, dnfs = 0\<rparr>
        (JDict [(''points'', JStr ''0'')])
     = Inr \<lparr>wins = 0, podiums = 0, points_total = 0, dnfs = 1\<rparr>"
proof -
  let ?z = "\<lparr>wins = 0, podiums = 0, points_total = 0, dnfs = 0\<rparr>"
  have p: "count_points (?z\<lparr>dnfs := dnfs ?z + 1\<rparr>) (JDict [(''points'', JStr ''0'')])
             = Inr \<lparr>wins = 0, podiums = 0, points_total = 0, dnfs = 1\<rparr>"
    by (simp add: count_points_def and_then_def int_of_str_def strip_def is_space_def
        parse_unsigned_def is_digit_def digit_val_def)
  show ?thesis
    using career_position_counting [of ?z "[]" "JStr ''1''" 1]
      career_position_counting [of ?z "[]" "JStr ''3''" 3]
      career_position_counting [of ?z "[(''points'', JStr ''0'')]" "JStr ''12''" 12]
      career_position_counting [of ?z "[]" "JStr ''R''" 0
        "''invalid literal for int() with base 10: '' @ [CHR 0x27] @ ''R'' @ [CHR 0x27]"]
      p
    by (simp add: sample_positions del: py_int.simps)
qed

section \<open>The race analysis\<close>

lemma year_2021: "str_int 2021 = ''2021''" and round_1: "str_int 1 = ''1''"
  by (simp_all add: str_int_def)

lemma quali_section_no_races: "quali_section R (race_envelope []) = Inr []"
  by (simp add: quali_section_def race_envelope_def quali_races_def and_then_def)

lemma getitem_in: "py_getitem v k = Inr x \<Longrightarrow> py_in k v = Inr True"
  by (cases v) (auto split: option.splits dest: map_of_Some_in_keys)

lemma getitem_truthy: "py_getitem v k = Inr x \<Longrightarrow> truthy v"
  by (cases v) (auto split: option.splits)

text \<open>
  Claim C7, amended. The request for \<open>2021/1/results\<close> answers with an envelope of one race
  with two results, of positions \<open>1\<close> and \<open>2\<close>; the race and the results hold the fields
  the formatter prints (race name, round, date, circuit name, locality and country; given
  name, family name and constructor name) and their optional parts (time or status, fastest
  lap) render; the request for \<open>2021/1/qualifying\<close> that the same call makes answers with
  an envelope whose qualifying section renders, to the empty text when it holds no race.
  Then the text is the header, the qualifying section, the race table with the line of
  \<open>P1\<close> and then the line of \<open>P2\<close> and no other, and the \<open>Race Winner\<close> line, which names
  the constructor of the first result once more.
\<close>

theorem race_analysis_two_results:
  assumes results: "fetch ''2021/1/results'' w = (Inr race_data, w1)"
    and quali: "fetch ''2021/1/qualifying'' w1 = (Inr quali_data, w2)"
    and quali_text: "quali_section R quali_data = Inr quali_text"
    and mr_data: "py_getitem race_data ''MRData'' = Inr mr_data"
    and race_table: "py_getitem mr_data ''RaceTable'' = Inr race_table"
    and races: "py_get race_table ''Races'' (JList []) = Inr (JList [race])"
    and race_name: "py_getitem race ''raceName'' = Inr (JStr n)"
    and race_round: "py_getitem race ''round'' = Inr (JStr r)"
    and race_date: "py_getitem race ''date'' = Inr (JStr d)"
    and circuit: "py_getitem race ''Circuit'' = Inr circuit"
    and circuit_name: "py_getitem circuit ''circuitName'' = Inr (JStr ci)"
    and location: "py_getitem circuit ''Location'' = Inr location"
    and locality: "py_getitem location ''locality'' = Inr (JStr l)"
    and country: "py_getitem location ''country'' = Inr (JStr co)"
    and two_results: "py_getitem race ''Results'' = Inr (JList [result1, result2])"
    and position1: "py_getitem result1 ''position'' = Inr (JStr ''1'')"
    and driver1: "py_getitem result1 ''Driver'' = Inr driver1"
    and given1: "py_getitem driver1 ''givenName'' = Inr (JStr g1)"
    and family1: "py_getitem driver1 ''familyName'' = Inr (JStr f1)"
    and constructor1: "py_getitem result1 ''Constructor'' = Inr constructor1"
    and name1: "py_getitem constructor1 ''name'' = Inr (JStr c1)"
    and points1: "py_get result1 ''points'' (JStr ''0'') = Inr (JStr p1)"
    and status1: "time_status R result1 = Inr ts1"
    and lap1: "fastest_lap R result1 = Inr lap"
    and position2: "py_getitem result2 ''position'' = Inr (JStr ''2'')"
    and driver2: "py_getitem result2 ''Driver'' = Inr driver2"
    and given2: "py_getitem driver2 ''givenName'' = Inr (JStr g2)"
    and family2: "py_getitem driver2 ''familyName'' = Inr (JStr f2)"
    and constructor2: "py_getitem result2 ''Constructor'' = Inr constructor2"
    and name2: "py_getitem constructor2 ''name'' = Inr (JStr c2)"
    and points2: "py_get result2 ''points'' (JStr ''0'') = Inr (JStr p2)"
    and status2: "time_status R result2 = Inr ts2"
  shows "get_race_analysis R fetch 2021 1 w
     = (Inr (chequered_flag @ '' **'' @ n @ '' - 2021 Race Analysis**'' @ nl @ nl
          @ ''**Circuit:** '' @ ci @ nl
          @ ''**Location:** '' @ l @ '', '' @ co @ nl
          @ ''**Date:** '' @ d @ nl
          @ chequered_flag @ '' **Round:** '' @ r @ nl @ nl
          @ quali_text
          @ ''**'' @ trophy @ '' RACE RESULTS:**'' @ nl
          @ ''P1: '' @ g1 @ '' '' @ f1 @ '' ('' @ c1 @ '') - '' @ p1 @ '' pts '' @ ts1 @ nl
          @ ''P2: '' @ g2 @ '' '' @ f2 @ '' ('' @ c2 @ '') - '' @ p2 @ '' pts '' @ ts2 @ nl
          @ nl
          @ ''**'' @ trophy @ '' Race Winner:** '' @ g1 @ '' '' @ f1 @ '' ('' @ c1 @ '')'' @ nl
          @ lap),
        w2)"
proof -
  have line1: "result_line R result1
      = Inr (''P1: '' @ g1 @ '' '' @ f1 @ '' ('' @ c1 @ '') - '' @ p1 @ '' pts '' @ ts1 @ nl)"
    by (simp add: result_line_def fmt_item_def and_then_def position1 driver1 given1 family1
        constructor1 name1 points1 status1)
  have line2: "result_line R result2
      = Inr (''P2: '' @ g2 @ '' '' @ f2 @ '' ('' @ c2 @ '') - '' @ p2 @ '' pts '' @ ts2 @ nl)"
    by (simp add: result_line_def fmt_item_def and_then_def position2 driver2 given2 family2
        constructor2 name2 points2 status2)
  have winner: "winner_section R race
      = Inr (''**'' @ trophy @ '' Race Winner:** '' @ g1 @ '' '' @ f1 @ '' ('' @ c1 @ '')'' @ nl
             @ lap)"
    by (simp add: winner_section_def fmt_item_def and_then_def two_results driver1 given1
        family1 constructor1 name1 lap1)
  have table: "results_section R race
      = Inr (''**'' @ trophy @ '' RACE RESULTS:**'' @ nl
          @ ''P1: '' @ g1 @ '' '' @ f1 @ '' ('' @ c1 @ '') - '' @ p1 @ '' pts '' @ ts1 @ nl
          @ ''P2: '' @ g2 @ '' '' @ f2 @ '' ('' @ c2 @ '') - '' @ p2 @ '' pts '' @ ts2 @ nl
          @ nl
          @ ''**'' @ trophy @ '' Race Winner:** '' @ g1 @ '' '' @ f1 @ '' ('' @ c1 @ '')'' @ nl
          @ lap)"
    by (simp add: results_section_def and_then_def getitem_in [OF two_results] two_results
        line1 line2 winner)
  have header: "analysis_header R 2021 race circuit location
      = Inr (chequered_flag @ '' **'' @ n @ '' - 2021 Race Analysis**'' @ nl @ nl
          @ ''**Circuit:** '' @ ci @ nl
          @ ''**Location:** '' @ l @ '', '' @ co @ nl
          @ ''**Date:** '' @ d @ nl
          @ chequered_flag @ '' **Round:** '' @ r @ nl @ nl)"
    by (simp add: analysis_header_def fmt_item_def and_then_def race_name race_round race_date
        circuit_name locality country year_2021)
  have render: "render_race_analysis R 2021 1 race_data quali_data
      = Inr (chequered_flag @ '' **'' @ n @ '' - 2021 Race Analysis**'' @ nl @ nl
          @ ''**Circuit:** '' @ ci @ nl
          @ ''**Location:** '' @ l @ '', '' @ co @ nl
          @ ''**Date:** '' @ d @ nl
          @ chequered_flag @ '' **Round:** '' @ r @ nl @ nl
          @ quali_text
          @ ''**'' @ trophy @ '' RACE RESULTS:**'' @ nl
          @ ''P1: '' @ g1 @ '' '' @ f1 @ '' ('' @ c1 @ '') - '' @ p1 @ '' pts '' @ ts1 @ nl
          @ ''P2: '' @ g2 @ '' '' @ f2 @ '' ('' @ c2 @ '') - '' @ p2 @ '' pts '' @ ts2 @ nl
          @ nl
          @ ''**'' @ trophy @ '' Race Winner:** '' @ g1 @ '' '' @ f1 @ '' ('' @ c1 @ '')'' @ nl
          @ lap)"
    unfolding render_race_analysis_def
    by (simp add: and_then_def getitem_truthy [OF mr_data] getitem_in [OF mr_data] mr_data
        race_table races circuit location header quali_text table)
  show ?thesis
    by (simp add: get_race_analysis_def year_2021 round_1 results quali render failed_to_get_def)
qed

text \<open>
  Claim C7 as stated fails: the results endpoint answers as the claim says, the request for
  the qualifying results of the same round fails, and the tool returns the message of the
  failure and no position.
\<close>

theorem race_analysis_qualifying_fails:
  "get_race_analysis sample_repr
     (race_fetcher (Inr (race_envelope [sample_race]))
        (Inl (McpError INTERNAL_ERROR ''Jolpica F1 API HTTP error 404: Not Found'')))
     2021 1 ()
   = (Inr ''Failed to get race analysis: Jolpica F1 API HTTP error 404: Not Found'', ())"
  by (simp add: get_race_analysis_def year_2021 round_1 race_fetcher_def failed_to_get_def)

text \<open>Claim C7, amended, at the first race of 2021.\<close>

theorem race_analysis_two_results_witness:
  "get_race_analysis sample_repr
     (race_fetcher (Inr (race_envelope [sample_race])) (Inr (race_envelope []))) 2021 1 ()
   = (Inr (chequered_flag @ '' **Bahrain Grand Prix - 2021 Race Analysis**'' @ nl @ nl
          @ ''**Circuit:** Bahrain International Circuit'' @ nl
          @ ''**Location:** Sakhir, Bahrain'' @ nl
          @ ''**Date:** 2021-03-28'' @ nl
          @ chequered_flag @ '' **Round:** 1'' @ nl @ nl
          @ ''**'' @ trophy @ '' RACE RESULTS:**'' @ nl
          @ ''P1: Lewis Hamilton (Mercedes) - 25 pts (Finished)'' @ nl
          @ ''P2: Max Verstappen (Red Bull) - 18 pts (Finished)'' @ nl
          @ nl
          @ ''**'' @ trophy @ '' Race Winner:** Lewis Hamilton (Mercedes)'' @ nl), ())"
proof -
  let ?fetch = "race_fetcher (Inr (race_envelope [sample_race])) (Inr (race_envelope []))"
  let ?r1 = "result_entry ''1'' ''Lewis'' ''Hamilton'' ''Mercedes'' ''25'' ''Finished''"
  let ?r2 = "result_entry ''2'' ''Max'' ''Verstappen'' ''Red Bull'' ''18'' ''Finished''"
  let ?loc = "JDict [(''locality'', JStr ''Sakhir''), (''country'', JStr ''Bahrain'')]"
  let ?cir = "JDict [(''circuitName'', JStr ''Bahrain International Circuit''),
                     (''Location'', ?loc)]"
  have h1: "?fetch ''2021/1/results'' () = (Inr (race_envelope [sample_race]), ())"
    by (simp add: race_fetcher_def)
  have h2: "?fetch ''2021/1/qualifying'' () = (Inr (race_envelope []), ())"
    by (simp add: race_fetcher_def)
  have h3: "quali_section sample_repr (race_envelope []) = Inr []"
    by (rule quali_section_no_races)
  have h4: "py_getitem (race_envelope [sample_race]) ''MRData''
              = Inr (JDict [(''RaceTable'', JDict [(''Races'', JList [sample_race])])])"
    by (simp add: race_envelope_def)
  have h5: "py_getitem (JDict [(''RaceTable'', JDict [(''Races'', JList [sample_race])])])
              ''RaceTable'' = Inr (JDict [(''Races'', JList [sample_race])])"
    by simp
  have h6: "py_get (JDict [(''Races'', JList [sample_race])]) ''Races'' (JList [])
              = Inr (JList [sample_race])"
    by simp
  have h7: "py_getitem sample_race ''raceName'' = Inr (JStr ''Bahrain Grand Prix'')"
    and h8: "py_getitem sample_race ''round'' = Inr (JStr ''1'')"
    and h9: "py_getitem sample_race ''date'' = Inr (JStr ''2021-03-28'')"
    and h10: "py_getitem sample_race ''Circuit'' = Inr ?cir"
    and h15: "py_getitem sample_race ''Results'' = Inr (JList [?r1, ?r2])"
    by (simp_all add: sample_race_def race_entry_def)
  have h11: "py_getitem ?cir ''circuitName'' = Inr (JStr ''Bahrain International Circuit'')"
    and h12: "py_getitem ?cir ''Location'' = Inr ?loc"
    and h13: "py_getitem ?loc ''locality'' = Inr (JStr ''Sakhir'')"
    and h14: "py_getitem ?loc ''country'' = Inr (JStr ''Bahrain'')"
    by simp_all
  have a1: "py_getitem ?r1 ''position'' = Inr (JStr ''1'')"
    and a2: "py_getitem ?r1 ''Driver''
               = Inr (JDict [(''givenName'', JStr ''Lewis''), (''familyName'', JStr ''Hamilton'')])"
    and a5: "py_getitem ?r1 ''Constructor'' = Inr (JDict [(''name'', JStr ''Mercedes'')])"
    and a7: "py_get ?r1 ''points'' (JStr ''0'') = Inr (JStr ''25'')"
    and a8: "time_status sample_repr ?r1 = Inr ''(Finished)''"
    and a9: "fastest_lap sample_repr ?r1 = Inr []"
    by (simp_all add: result_entry_def time_status_def fastest_lap_def fmt_item_def and_then_def)
  have a3: "py_getitem (JDict [(''givenName'', JStr ''Lewis''), (''familyName'', JStr ''Hamilton'')])
               ''givenName'' = Inr (JStr ''Lewis'')"
    and a4: "py_getitem (JDict [(''givenName'', JStr ''Lewis''), (''familyName'', JStr ''Hamilton'')])
               ''familyName'' = Inr (JStr ''Hamilton'')"
    and a6: "py_getitem (JDict [(''name'', JStr ''Mercedes'')]) ''name'' = Inr (JStr ''Mercedes'')"
    by simp_all
  have b1: "py_getitem ?r2 ''position'' = Inr (JStr ''2'')"
    and b2: "py_getitem ?r2 ''Driver''
               = Inr (JDict [(''givenName'', JStr ''Max''), (''familyName'', JStr ''Verstappen'')])"
    and b5: "py_getitem ?r2 ''Constructor'' = Inr (JDict [(''name'', JStr ''Red Bull'')])"
    and b7: "py_get ?r2 ''points'' (JStr ''0'') = Inr (JStr ''18'')"
    and b8: "time_status sample_repr ?r2 = Inr ''(Finished)''"
    by (simp_all add: result_entry_def time_status_def fmt_item_def and_then_def)
  have b3: "py_getitem (JDict [(''givenName'', JStr ''Max''), (''familyName'', JStr ''Verstappen'')])
               ''givenName'' = Inr (JStr ''Max'')"
    and b4: "py_getitem (JDict [(''givenName'', JStr ''Max''), (''familyName'', JStr ''Verstappen'')])
               ''familyName'' = Inr (JStr ''Verstappen'')"
    and b6: "py_getitem (JDict [(''name'', JStr ''Red Bull'')]) ''name'' = Inr (JStr ''Red Bull'')"
    by simp_all
  show ?thesis
    using race_analysis_two_results [where fetch = ?fetch and R = sample_repr and w = "()",
        OF h1 h2 h3 h4 h5 h6 h7 h8 h9 h10 h11 h12 h13 h14 h15
           a1 a2 a3 a4 a5 a6 a7 a8 a9 b1 b2 b3 b4 b5 b6 b7 b8]
    by simp
qed

end
